theory Spec2Isabelle
  imports Main
begin

unbundle bit_operations_syntax

section \<open>The vdsm sos plugin (common/test-scenarios-files/vdsm-sos-plugin/vdsm.py)\<close>

text \<open>
  The plugin's \<^verbatim>\<open>setup\<close> method decides what the surrounding sos framework archives:
  it declares forbidden paths, requests copies of paths, requests the output of external
  commands, and stores the results of calls to the vdsm API as named strings. The model
  below is a shallow embedding of \<^verbatim>\<open>collectVdsmCommand\<close>, \<^verbatim>\<open>setup\<close> and
  \<^verbatim>\<open>_addVdsmRunDir\<close>. Everything outside the file (the sos framework, the file system, the
  process table, the vdsm client, \<^verbatim>\<open>json.dumps\<close>) is an input of the model. The last
  subsection of the definitions gives the serializer and the decoder of Python's
  \<^verbatim>\<open>json\<close> library on JSON values, for the runs in which \<^verbatim>\<open>json.dumps\<close> is that one.
\<close>

subsection \<open>Python values and exceptions\<close>

text \<open>The values that options and keyword arguments take in the plugin.\<close>

datatype pyval = PyNone | PyBool bool | PyInt int | PyStr string

text \<open>Python's truth value of an object, as an \<^verbatim>\<open>if\<close> reads it.\<close>

fun truthy :: "pyval \<Rightarrow> bool" where
  "truthy PyNone = False"
| "truthy (PyBool b) = b"
| "truthy (PyInt i) = (i \<noteq> 0)"
| "truthy (PyStr s) = (s \<noteq> [])"

text \<open>
  An exception caught by \<^verbatim>\<open>except Exception as e\<close>; the plugin only ever reads
  \<^verbatim>\<open>str(e)\<close>.
\<close>

datatype exn = Exception (str: string)

type_synonym kwargs = "(string \<times> pyval) list"

subsection \<open>The archival subsystem and the vdsm endpoint, as state\<close>

text \<open>
  Each call of the plugin to the sos framework is recorded, in order:
  \<^verbatim>\<open>addForbiddenPath(path)\<close>, \<^verbatim>\<open>addCopySpec(path)\<close>,
  \<^verbatim>\<open>addCopySpecLimit(path, limit)\<close>, \<^verbatim>\<open>collectExtOutput(command)\<close> and
  \<^verbatim>\<open>addStringAsFile(content, name)\<close>.
\<close>

datatype request =
    ForbiddenPath string
  | CopySpec string
  | CopySpecLimit string pyval
  | CmdOutput string
  | StringAsFile string string

text \<open>
  The state of a run: the requests handed to the framework so far, the calls sent to the
  vdsm endpoint so far (method and keyword arguments), how many connections to vdsm were
  established and how many were closed.
\<close>

record world =
  requests :: "request list"
  calls :: "(string \<times> kwargs) list"
  opened :: nat
  closed :: nat

text \<open>The state before a run.\<close>

definition init :: world where
  "init = \<lparr>requests = [], calls = [], opened = 0, closed = 0\<rparr>"

text \<open>
  A statement either returns a value or raises; the state it leaves behind is kept in both
  cases.
\<close>

type_synonym 'a action = "world \<Rightarrow> (exn + 'a) \<times> world"

definition skip :: "unit action" where
  "skip s = (Inr (), s)"

text \<open>A call into a collaborator that does not touch the state of the run.\<close>

definition external :: "exn + 'a \<Rightarrow> 'a action" where
  "external r s = (r, s)"

definition bind :: "'a action \<Rightarrow> ('a \<Rightarrow> 'b action) \<Rightarrow> 'b action" where
  "bind m k s = (case m s of (Inl e, s') \<Rightarrow> (Inl e, s') | (Inr x, s') \<Rightarrow> k x s')"

text \<open>Statements one after the other: the first that raises ends the block.\<close>

fun sequence :: "unit action list \<Rightarrow> unit action" where
  "sequence [] s = (Inr (), s)"
| "sequence (a # as) s =
     (case a s of (Inl e, s') \<Rightarrow> (Inl e, s') | (Inr u, s') \<Rightarrow> sequence as s')"

definition for_each :: "'a list \<Rightarrow> ('a \<Rightarrow> unit action) \<Rightarrow> unit action" where
  "for_each xs body = sequence (map body xs)"

text \<open>\<^verbatim>\<open>try: body  except Exception as e: handler(e)\<close>\<close>

definition try_except :: "'a action \<Rightarrow> (exn \<Rightarrow> 'a action) \<Rightarrow> 'a action" where
  "try_except body handler s =
     (case body s of (Inl e, s') \<Rightarrow> handler e s' | (Inr x, s') \<Rightarrow> (Inr x, s'))"

definition submit :: "request \<Rightarrow> unit action" where
  "submit r s = (Inr (), s\<lparr>requests := requests s @ [r]\<rparr>)"

definition addForbiddenPath :: "string \<Rightarrow> unit action" where
  "addForbiddenPath path = submit (ForbiddenPath path)"

definition addCopySpec :: "string \<Rightarrow> unit action" where
  "addCopySpec path = submit (CopySpec path)"

definition addCopySpecLimit :: "string \<Rightarrow> pyval \<Rightarrow> unit action" where
  "addCopySpecLimit path limit = submit (CopySpecLimit path limit)"

definition collectExtOutput :: "string \<Rightarrow> unit action" where
  "collectExtOutput cmd = submit (CmdOutput cmd)"

definition addStringAsFile :: "string \<Rightarrow> string \<Rightarrow> unit action" where
  "addStringAsFile content name = submit (StringAsFile content name)"

subsection \<open>The collaborators\<close>

text \<open>
  The object returned by \<^verbatim>\<open>client.connect\<close>. An attribute such as
  \<^verbatim>\<open>cli.Host.getCapabilities\<close> is a callable that takes keyword arguments, sends the
  request named \<^verbatim>\<open>Host.getCapabilities\<close> to the endpoint and returns structured data
  or raises: \<open>rpc\<close> is the answer of the endpoint to a method called with keyword
  arguments. The two discovery methods answer with a list of identifiers, which the
  plugin iterates over: \<open>rpc_ids\<close>.
\<close>

record 'v client =
  rpc :: "string \<Rightarrow> kwargs \<Rightarrow> exn + 'v"
  rpc_ids :: "string \<Rightarrow> kwargs \<Rightarrow> exn + string list"

text \<open>The callable \<^verbatim>\<open>cli.<name>\<close>: the call is sent, and its answer returned or raised.\<close>

definition callable :: "'v client \<Rightarrow> string \<Rightarrow> kwargs \<Rightarrow> 'v action" where
  "callable cli name kw s = (rpc cli name kw, s\<lparr>calls := calls s @ [(name, kw)]\<rparr>)"

definition callable_ids :: "'v client \<Rightarrow> string \<Rightarrow> kwargs \<Rightarrow> (string list) action" where
  "callable_ids cli name kw s = (rpc_ids cli name kw, s\<lparr>calls := calls s @ [(name, kw)]\<rparr>)"

text \<open>
  What a run reads from outside the plugin:
  \<^item> \<open>option_value\<close>: what \<^verbatim>\<open>self.getOption(name)\<close> returns;
  \<^item> \<open>glob_glob\<close>: what \<^verbatim>\<open>glob.glob(pattern)\<close> returns;
  \<^item> \<open>os_stat\<close>: \<^verbatim>\<open>os.stat(f).st_mode\<close>, or the \<^verbatim>\<open>OSError\<close> it raises;
  \<^item> \<open>pgrep\<close>: the lines \<^verbatim>\<open>out.splitlines()\<close> of the output of
    \<^verbatim>\<open>/usr/bin/pgrep qemu-kvm\<close>, or the \<^verbatim>\<open>OSError\<close> that \<^verbatim>\<open>Popen\<close> raises;
  \<^item> \<open>client_connect\<close>: \<^verbatim>\<open>client.connect(host)\<close>;
  \<^item> \<open>json_dumps\<close>: \<^verbatim>\<open>json.dumps(result)\<close>, which raises on a value it cannot
    serialise.
\<close>

record 'v env =
  option_value :: "string \<Rightarrow> pyval"
  glob_glob :: "string \<Rightarrow> string list"
  os_stat :: "string \<Rightarrow> exn + int"
  pgrep :: "exn + string list"
  client_connect :: "string \<Rightarrow> exn + 'v client"
  json_dumps :: "'v \<Rightarrow> exn + string"

definition getOption :: "'v env \<Rightarrow> string \<Rightarrow> pyval action" where
  "getOption env name = external (Inr (option_value env name))"

text \<open>\<^verbatim>\<open>client.connect(host)\<close>: a connection that is established is counted.\<close>

definition connect :: "'v env \<Rightarrow> string \<Rightarrow> 'v client action" where
  "connect env host s =
     (case client_connect env host of
        Inl e \<Rightarrow> (Inl e, s)
      | Inr cli \<Rightarrow> (Inr cli, s\<lparr>opened := opened s + 1\<rparr>))"

text \<open>
  Modelled from the spec: \<^verbatim>\<open>vdsm.utils.closing\<close> is imported from the vdsm package
  and is not part of these sources. The spec describes it as scoped acquisition: the
  connection is released when the block is left, whether the block returned or raised.
  The result of the block, a raised exception included, is passed on.
\<close>

definition closing :: "'v client \<Rightarrow> unit action \<Rightarrow> unit action" where
  "closing cli body s = (case body s of (r, s') \<Rightarrow> (r, s'\<lparr>closed := closed s' + 1\<rparr>))"

subsection \<open>Strings\<close>

text \<open>\<^verbatim>\<open>s.endswith(suffix)\<close>\<close>

definition endswith :: "string \<Rightarrow> string \<Rightarrow> bool" where
  "endswith s suf \<longleftrightarrow> length suf \<le> length s \<and> drop (length s - length suf) s = suf"

text \<open>\<^verbatim>\<open>s.strip()\<close> of a byte string: space, tab, newline, return, vertical tab, form feed.\<close>

definition isspace :: "char \<Rightarrow> bool" where
  "isspace c \<longleftrightarrow> c \<in> set [CHR 0x20, CHR 0x09, CHR 0x0A, CHR 0x0D, CHR 0x0B, CHR 0x0C]"

definition strip :: "string \<Rightarrow> string" where
  "strip s = rev (dropWhile isspace (rev (dropWhile isspace s)))"

text \<open>\<^verbatim>\<open>stat.S_IFMT\<close> and \<^verbatim>\<open>stat.S_ISSOCK\<close>: the file type bits are \<^verbatim>\<open>0o170000\<close>, a
  socket is \<^verbatim>\<open>0o140000\<close>.\<close>

definition S_IFMT :: "int \<Rightarrow> int" where
  "S_IFMT mode = mode AND 0xF000"

definition S_ISSOCK :: "int \<Rightarrow> bool" where
  "S_ISSOCK mode \<longleftrightarrow> S_IFMT mode = 0xC000"

subsection \<open>Module constants\<close>

definition DATA_DOMAIN :: int where
  "DATA_DOMAIN = 1"

text \<open>
  \<^verbatim>\<open>LVM_CONFIG\<close> after \<^verbatim>\<open>re.sub(r"\s+", " ", LVM_CONFIG).strip()\<close>: every run of white
  space of the template is one space, and the ends are trimmed.
\<close>

definition LVM_CONFIG :: string where
  "LVM_CONFIG = ''global { locking_type=0 metadata_read_only=1 use_lvmetad=0 } devices { preferred_names=[ \"^/dev/mapper/\" ] ignore_suspended_devices=1 write_cache_state=0 disable_after_error_count=3 filter=[ \"a|^/dev/mapper/.*|\", \"r|.*|\" ] }''"

subsection \<open>The plugin\<close>

text \<open>
  \<^verbatim>\<open>collectVdsmCommand(self, name, call, **kwargs)\<close>: the call and the serialisation of
  its result are both inside the \<^verbatim>\<open>try\<close>.
\<close>

definition collectVdsmCommand ::
  "'v env \<Rightarrow> string \<Rightarrow> (kwargs \<Rightarrow> 'v action) \<Rightarrow> kwargs \<Rightarrow> unit action" where
  "collectVdsmCommand env name call kw =
     try_except
       (bind (call kw) (\<lambda>result.
        bind (external (json_dumps env result)) (\<lambda>text.
        addStringAsFile text name)))
       (\<lambda>e. addStringAsFile (str e) name)"

text \<open>
  \<^verbatim>\<open>_addVdsmRunDir\<close> (a name cannot start with an underscore here): the conditions are
  joined by \<^verbatim>\<open>and\<close>, so \<^verbatim>\<open>os.stat\<close> is called only for a path that passed the three
  tests on its name.
\<close>

definition addVdsmRunDir :: "'v env \<Rightarrow> unit action" where
  "addVdsmRunDir env =
     for_each (glob_glob env ''/var/run/vdsm/*'') (\<lambda>f.
       if \<not> endswith f ''.vfd'' \<and> \<not> endswith f ''/isoUploader'' \<and> \<not> endswith f ''/storage''
       then bind (external (os_stat env f)) (\<lambda>mode.
              if \<not> S_ISSOCK mode then addCopySpec f else skip)
       else skip)"

text \<open>Lines 131 to 173 of \<^verbatim>\<open>setup\<close>: everything before the connection to vdsm.\<close>

definition setup_local :: "'v env \<Rightarrow> unit action" where
  "setup_local env = sequence [
     addForbiddenPath ''/etc/pki/vdsm/keys/*'',
     addForbiddenPath ''/etc/pki/vdsm/libvirt-spice/*-key.*'',
     addForbiddenPath ''/etc/pki/libvirt/private/*'',
     collectExtOutput ''service vdsmd status'',
     addCopySpec ''/tmp/vds_installer*'',
     addCopySpec ''/tmp/vds_bootstrap*'',
     addCopySpec ''/etc/vdsm/*'',
     bind (getOption env ''logsize'') (\<lambda>logsize.
       if logsize \<noteq> PyNone then addCopySpecLimit ''/var/log/vdsm/*'' logsize
       else addCopySpec ''/var/log/vdsm/*''),
     addVdsmRunDir env,
     addCopySpec ''/usr/libexec/vdsm/hooks'',
     addCopySpec ''/var/lib/vdsm'',
     addCopySpec ''/var/log/ovirt.log'',
     addCopySpec ''/var/log/sanlock.log'',
     bind (external (pgrep env)) (\<lambda>lines.
       for_each lines (\<lambda>line.
         sequence [
           addCopySpec (''/proc/'' @ strip line @ ''/cmdline''),
           addCopySpec (''/proc/'' @ strip line @ ''/status''),
           addCopySpec (''/proc/'' @ strip line @ ''/mountstats'')])),
     collectExtOutput ''/bin/ls -ldZ /etc/vdsm'',
     collectExtOutput
       (''/bin/su vdsm -s /bin/sh -c '/usr/bin/tree -l /rhev/data-center'' @ [CHR 0x27]),
     collectExtOutput
       (''/bin/su vdsm -s /bin/sh -c '/bin/ls -lR /rhev/data-center'' @ [CHR 0x27]),
     collectExtOutput
       (''/sbin/lvm vgs -v -o +tags --config '' @ [CHR 0x27] @ LVM_CONFIG @ [CHR 0x27]),
     collectExtOutput
       (''/sbin/lvm lvs -v -o +tags --config '' @ [CHR 0x27] @ LVM_CONFIG @ [CHR 0x27]),
     collectExtOutput
       (''/sbin/lvm pvs -v -o +all --config '' @ [CHR 0x27] @ LVM_CONFIG @ [CHR 0x27]),
     collectExtOutput ''/sbin/fdisk -l'',
     collectExtOutput ''/usr/bin/iostat'',
     collectExtOutput ''/sbin/iscsiadm -m node'',
     collectExtOutput ''/sbin/iscsiadm -m session'',
     collectExtOutput ''/usr/sbin/nodectl info'',
     collectExtOutput ''/usr/bin/abrt-cli list'']"

text \<open>Lines 183 to 211 of \<^verbatim>\<open>setup\<close>: the body of the \<^verbatim>\<open>with\<close> block.\<close>

definition setup_vdsm :: "'v env \<Rightarrow> 'v client \<Rightarrow> unit action" where
  "setup_vdsm env cli = sequence [
     collectVdsmCommand env ''Host.getCapabilities'' (callable cli ''Host.getCapabilities'') [],
     collectVdsmCommand env ''Host.getStats'' (callable cli ''Host.getStats'') [],
     collectVdsmCommand env ''Host.getAllVmStats'' (callable cli ''Host.getAllVmStats'') [],
     collectVdsmCommand env ''Host.getVMFullList'' (callable cli ''Host.getVMFullList'') [],
     collectVdsmCommand env ''Host.getDeviceList'' (callable cli ''Host.getDeviceList'')
       [(''checkStatus'', PyBool False)],
     collectVdsmCommand env ''Host.hostdevListByCaps'' (callable cli ''Host.hostdevListByCaps'') [],
     collectVdsmCommand env ''Host.getAllTasksInfo'' (callable cli ''Host.getAllTasksInfo'') [],
     collectVdsmCommand env ''Host.getAllTasksStatuses'' (callable cli ''Host.getAllTasksStatuses'') [],
     bind (callable_ids cli ''Host.getConnectedStoragePools'' []) (\<lambda>pools_list.
       for_each pools_list (\<lambda>pool.
         collectVdsmCommand env (''StoragePool.getSpmStatus '' @ pool)
           (callable cli ''StoragePool.getSpmStatus'') [(''storagepoolID'', PyStr pool)])),
     bind (getOption env ''dump-volume-chains'') (\<lambda>dump.
       if truthy dump
       then bind (callable_ids cli ''Host.getStorageDomains'' [(''domainClass'', PyInt DATA_DOMAIN)])
              (\<lambda>sd_uuids.
                for_each sd_uuids (\<lambda>sd_uuid.
                  collectExtOutput (''vdsm-tool dump-volume-chains '' @ sd_uuid)))
       else skip)]"

text \<open>
  The method \<^verbatim>\<open>setup\<close> of the class \<^verbatim>\<open>vdsm\<close> (\<^verbatim>\<open>setup\<close> alone is a reserved word
  here): when \<^verbatim>\<open>client.connect\<close> raises, the handler stores one string and returns;
  otherwise the rest of the method runs inside \<^verbatim>\<open>with utils.closing(cli)\<close>.
\<close>

definition vdsm_setup :: "'v env \<Rightarrow> unit action" where
  "vdsm_setup env = sequence [
     setup_local env,
     (\<lambda>s. case connect env ''localhost'' s of
        (Inl e, s') \<Rightarrow>
          addStringAsFile (''Cannot connect to vdsm: '' @ str e) ''client.connect'' s'
      | (Inr cli, s') \<Rightarrow> closing cli (setup_vdsm env cli) s')]"

subsection \<open>What a run leaves behind\<close>

text \<open>
  A run starts from \<open>init\<close>. Its outcome is what the statement returned or raised, the
  requests it handed to the framework, the calls it sent to vdsm, and the numbers of
  connections it established and closed.
\<close>

definition result :: "'a action \<Rightarrow> exn + 'a" where
  "result a = fst (a init)"

definition emitted :: "'a action \<Rightarrow> request list" where
  "emitted a = requests (snd (a init))"

definition called :: "'a action \<Rightarrow> (string \<times> kwargs) list" where
  "called a = calls (snd (a init))"

definition opens :: "'a action \<Rightarrow> nat" where
  "opens a = opened (snd (a init))"

definition closes :: "'a action \<Rightarrow> nat" where
  "closes a = closed (snd (a init))"

text \<open>
  A statement is uniform when, from any state, it returns the same result, appends the same
  requests and calls, and leaves the connection counters alone.
\<close>

definition uniform :: "'a action \<Rightarrow> bool" where
  "uniform a \<longleftrightarrow>
     (\<forall>s. a s = (result a, s\<lparr>requests := requests s @ emitted a, calls := calls s @ called a\<rparr>))"

text \<open>The named strings among the requests, as (name, content), in order.\<close>

fun entry_of :: "request \<Rightarrow> (string \<times> string) list" where
  "entry_of (StringAsFile content name) = [(name, content)]"
| "entry_of (ForbiddenPath p) = []"
| "entry_of (CopySpec p) = []"
| "entry_of (CopySpecLimit p l) = []"
| "entry_of (CmdOutput c) = []"

definition string_entries :: "request list \<Rightarrow> (string \<times> string) list" where
  "string_entries rs = concat (map entry_of rs)"

text \<open>The paths requested for copy, with or without a size limit, in order.\<close>

fun copy_path_of :: "request \<Rightarrow> string list" where
  "copy_path_of (CopySpec p) = [p]"
| "copy_path_of (CopySpecLimit p l) = [p]"
| "copy_path_of (ForbiddenPath p) = []"
| "copy_path_of (CmdOutput c) = []"
| "copy_path_of (StringAsFile content name) = []"

definition copy_paths :: "request list \<Rightarrow> string list" where
  "copy_paths rs = concat (map copy_path_of rs)"

text \<open>The external commands requested, in order.\<close>

fun command_of :: "request \<Rightarrow> string list" where
  "command_of (CmdOutput c) = [c]"
| "command_of (CopySpec p) = []"
| "command_of (CopySpecLimit p l) = []"
| "command_of (ForbiddenPath p) = []"
| "command_of (StringAsFile content name) = []"

definition commands :: "request list \<Rightarrow> string list" where
  "commands rs = concat (map command_of rs)"

text \<open>
  What \<^verbatim>\<open>collectVdsmCommand\<close> stores for the outcome of a call: the serialised result,
  or the string of the exception that the call or the serialisation raised.
\<close>

definition stored_text :: "'v env \<Rightarrow> exn + 'v \<Rightarrow> string" where
  "stored_text env r =
     (case r of
        Inl e \<Rightarrow> str e
      | Inr v \<Rightarrow> (case json_dumps env v of Inl e \<Rightarrow> str e | Inr t \<Rightarrow> t))"

text \<open>
  \<^verbatim>\<open>f\<close> is a socket: \<^verbatim>\<open>os.stat(f)\<close> returns and \<^verbatim>\<open>stat.S_ISSOCK\<close> holds of the mode.
\<close>

definition is_socket :: "'v env \<Rightarrow> string \<Rightarrow> bool" where
  "is_socket env f = (case os_stat env f of Inl e \<Rightarrow> False | Inr mode \<Rightarrow> S_ISSOCK mode)"

text \<open>The name under which the status of a storage pool is stored.\<close>

definition is_pool_status :: "string \<Rightarrow> bool" where
  "is_pool_status name \<longleftrightarrow> take 25 name = ''StoragePool.getSpmStatus ''"

text \<open>The external command that is run for a storage domain.\<close>

definition is_domain_command :: "string \<Rightarrow> bool" where
  "is_domain_command cmd \<longleftrightarrow> take 29 cmd = ''vdsm-tool dump-volume-chains ''"

text \<open>
  Matching a path against a pattern in which \<^verbatim>\<open>*\<close> stands for any run of characters,
  a slash included, and every other character of these patterns for itself. This is the
  widest reading of the three forbidden patterns: a path that a stricter reading matches
  is matched here too.
\<close>

fun glob_match :: "string \<Rightarrow> string \<Rightarrow> bool" where
  "glob_match [] s \<longleftrightarrow> s = []"
| "glob_match (p # ps) [] \<longleftrightarrow> p = CHR ''*'' \<and> glob_match ps []"
| "glob_match (p # ps) (c # cs) \<longleftrightarrow>
     (if p = CHR ''*'' then glob_match ps (c # cs) \<or> glob_match (p # ps) cs
      else p = c \<and> glob_match ps cs)"

subsection \<open>Example hosts\<close>

text \<open>
  A host on which vdsm answers: \<^verbatim>\<open>Host.getStats\<close> and the status of \<^verbatim>\<open>pool1\<close> raise,
  every other call returns \<^verbatim>\<open>True\<close>; two storage pools are connected and there are two
  data domains. The run directory holds a sysprep floppy image, the two excluded entries,
  a socket (mode \<^verbatim>\<open>0o140755\<close>) and a regular file (mode \<^verbatim>\<open>0o100644\<close>); one qemu-kvm
  process runs. Both options are set.
\<close>

definition demo_client :: "bool client" where
  "demo_client = \<lparr>
     rpc = (\<lambda>name kw.
       if name = ''Host.getStats'' then Inl (Exception ''Request timed out'')
       else if name = ''StoragePool.getSpmStatus'' \<and> kw = [(''storagepoolID'', PyStr ''pool1'')]
       then Inl (Exception ''Unknown pool id'')
       else Inr True),
     rpc_ids = (\<lambda>name kw.
       if name = ''Host.getConnectedStoragePools'' then Inr [''pool1'', ''pool2'']
       else Inr [''sd1'', ''sd2''])\<rparr>"

text \<open>\<^verbatim>\<open>json.dumps\<close> on the booleans.\<close>

definition demo_dumps :: "bool \<Rightarrow> exn + string" where
  "demo_dumps v = Inr (if v then ''true'' else ''false'')"

definition demo_env :: "bool env" where
  "demo_env = \<lparr>
     option_value = (\<lambda>name.
       if name = ''logsize'' then PyInt 10
       else if name = ''dump-volume-chains'' then PyBool True
       else PyNone),
     glob_glob = (\<lambda>pattern.
       if pattern = ''/var/run/vdsm/*''
       then [''/var/run/vdsm/boot.vfd'', ''/var/run/vdsm/isoUploader'', ''/var/run/vdsm/storage'',
             ''/var/run/vdsm/svdsm.sock'', ''/var/run/vdsm/vdsmd.pid'']
       else []),
     os_stat = (\<lambda>f. if f = ''/var/run/vdsm/svdsm.sock'' then Inr 0xC1ED else Inr 0x81A4),
     pgrep = Inr [''4242''],
     client_connect = (\<lambda>host. Inr demo_client),
     json_dumps = demo_dumps\<rparr>"

text \<open>The same host when vdsm refuses the connection.\<close>

definition env_noconn :: "bool env" where
  "env_noconn = demo_env\<lparr>client_connect := (\<lambda>host. Inl (Exception ''Connection refused''))\<rparr>"

text \<open>The same host when both discovery calls raise.\<close>

definition env_pools_fail :: "bool env" where
  "env_pools_fail = demo_env\<lparr>client_connect := (\<lambda>host.
     Inr (demo_client\<lparr>rpc_ids := (\<lambda>name kw. Inl (Exception ''Not connected to storage''))\<rparr>))\<rparr>"

text \<open>
  A run directory with a dangling symbolic link, on which \<^verbatim>\<open>os.stat\<close> raises, listed
  before a regular file.
\<close>

definition env_stat_fail :: "bool env" where
  "env_stat_fail = demo_env\<lparr>
     glob_glob := (\<lambda>pattern. [''/var/run/vdsm/gone'', ''/var/run/vdsm/vdsmd.pid'']),
     os_stat := (\<lambda>f.
       if f = ''/var/run/vdsm/gone'' then Inl (Exception ''[Errno 2] No such file or directory'')
       else Inr 0x81A4)\<rparr>"

text \<open>The same host with the option \<^verbatim>\<open>dump-volume-chains\<close> switched off.\<close>

definition env_no_dump :: "bool env" where
  "env_no_dump = demo_env\<lparr>option_value :=
     (option_value demo_env)(''dump-volume-chains'' := PyBool False)\<rparr>"

text \<open>
  The same host with a serialiser that raises on every result, as \<^verbatim>\<open>json.dumps\<close> does
  on a value that is not structured data.
\<close>

definition env_no_json :: "bool env" where
  "env_no_json = demo_env\<lparr>json_dumps :=
     (\<lambda>v. Inl (Exception ''Object is not JSON serializable''))\<rparr>"

subsection \<open>The declared options\<close>

text \<open>
  \<^verbatim>\<open>option_list\<close> of the class (lines 104 to 107): for each option its name, its
  description, its speed and its default.
\<close>

definition option_list :: "(string \<times> string \<times> string \<times> pyval) list" where
  "option_list =
     [(''logsize'', ''max size (MiB) to collect per log file'', [], PyBool False),
      (''dump-volume-chains'', ''Collect volume chains info'', [], PyBool False)]"

text \<open>
  Modelled from the spec: \<^verbatim>\<open>getOption\<close> is the sos framework's, which is not part of
  these sources; the spec names the options surface only. The framework reads an option
  as the value the user gave it and otherwise as the default that \<^verbatim>\<open>option_list\<close>
  declares for it; a value of \<^verbatim>\<open>None\<close> and an option that is not declared read as
  \<^verbatim>\<open>0\<close>. \<open>given\<close> holds the options the user set.
\<close>

definition sos_get_option :: "(string \<rightharpoonup> pyval) \<Rightarrow> string \<Rightarrow> pyval" where
  "sos_get_option given name =
     (case (case given name of
              Some v \<Rightarrow> Some v
            | None \<Rightarrow> map_of (map (\<lambda>(n, description, speed, default). (n, default)) option_list) name) of
        Some v \<Rightarrow> if v \<noteq> PyNone then v else PyInt 0
      | None \<Rightarrow> PyInt 0)"

text \<open>The example host when the user sets no option.\<close>

definition env_unset :: "bool env" where
  "env_unset = demo_env\<lparr>option_value := sos_get_option Map.empty\<rparr>"

subsection \<open>JSON text\<close>

text \<open>
  Modelled from the spec: \<^verbatim>\<open>json.dumps\<close> and its inverse \<^verbatim>\<open>json.loads\<close> belong to
  Python's standard library, which is not part of these sources; the spec names them only
  as serialization and deserialization of structured data. The definitions of this
  subsection follow the documentation of the library for a call with default arguments.

  A JSON value is \<^verbatim>\<open>None\<close>, a boolean, an integer, a string, a list of values or a
  dict from strings to values. A dict is the list of its items in insertion order. A
  string is a list of code points 0 to 255. Numbers with a fraction or an exponent
  (Python's floats) are not part of the model.
\<close>

datatype json =
    JNull
  | JBool bool
  | JInt int
  | JStr string
  | JList "json list"
  | JDict "(string \<times> json) list"


text \<open>
  \<^verbatim>\<open>str(n)\<close> for an integer: decimal digits, most significant first, with a minus sign
  for a negative number.
\<close>

definition digit_char :: "nat \<Rightarrow> char" where
  "digit_char d = char_of (48 + d)"

fun show_nat :: "nat \<Rightarrow> string" where
  "show_nat n = (if n < 10 then [digit_char n] else show_nat (n div 10) @ [digit_char (n mod 10)])"

declare show_nat.simps [simp del]

definition show_int :: "int \<Rightarrow> string" where
  "show_int i = (if i < 0 then CHR ''-'' # show_nat (nat (- i)) else show_nat (nat i))"

text \<open>
  A string is written between double quotes. With \<^verbatim>\<open>ensure_ascii\<close> (the default), the
  double quote, the backslash and the control characters that have a short escape are
  written with it, the characters from space to tilde are written as they are, and
  every other character is written as a backslash, the letter u and four lower-case
  hexadecimal digits.
\<close>

definition hex_char :: "nat \<Rightarrow> char" where
  "hex_char d = (if d < 10 then char_of (48 + d) else char_of (87 + d))"

definition escape_char :: "char \<Rightarrow> string" where
  "escape_char c =
     (if c = CHR 0x22 then [CHR 0x5C, CHR 0x22]
      else if c = CHR 0x5C then [CHR 0x5C, CHR 0x5C]
      else if c = CHR 0x08 then [CHR 0x5C, CHR ''b'']
      else if c = CHR 0x0C then [CHR 0x5C, CHR ''f'']
      else if c = CHR 0x0A then [CHR 0x5C, CHR ''n'']
      else if c = CHR 0x0D then [CHR 0x5C, CHR ''r'']
      else if c = CHR 0x09 then [CHR 0x5C, CHR ''t'']
      else if 0x20 \<le> (of_char c :: nat) \<and> (of_char c :: nat) \<le> 0x7E then [c]
      else [CHR 0x5C, CHR ''u'', CHR ''0'', CHR ''0'',
            hex_char (of_char c div 16), hex_char (of_char c mod 16)])"

definition encode_string :: "string \<Rightarrow> string" where
  "encode_string s = CHR 0x22 # concat (map escape_char s) @ [CHR 0x22]"

text \<open>
  \<^verbatim>\<open>sep.join(parts)\<close>.
\<close>

fun join :: "string \<Rightarrow> string list \<Rightarrow> string" where
  "join sep [] = []"
| "join sep [x] = x"
| "join sep (x # y # ys) = x @ sep @ join sep (y # ys)"

text \<open>
  \<^verbatim>\<open>json.dumps(v)\<close>: the items of a list and of a dict are separated by a comma and a
  space, a key from its value by a colon and a space.
\<close>

fun dumps :: "json \<Rightarrow> string" where
  "dumps JNull = ''null''"
| "dumps (JBool b) = (if b then ''true'' else ''false'')"
| "dumps (JInt i) = show_int i"
| "dumps (JStr s) = encode_string s"
| "dumps (JList xs) = ''['' @ join '', '' (map dumps xs) @ '']''"
| "dumps (JDict kvs) =
     ''{'' @ join '', '' (map (\<lambda>kv. encode_string (fst kv) @ '': '' @ dumps (snd kv)) kvs) @ ''}''"


text \<open>
  The decoder skips spaces, tabs, line feeds and carriage returns between tokens.
\<close>

definition is_ws :: "char \<Rightarrow> bool" where
  "is_ws c \<longleftrightarrow> c = CHR 0x20 \<or> c = CHR 0x09 \<or> c = CHR 0x0A \<or> c = CHR 0x0D"

definition skip_ws :: "string \<Rightarrow> string" where
  "skip_ws s = dropWhile is_ws s"





text \<open>
  A number is an optional minus sign followed by \<^verbatim>\<open>0\<close> or by digits that do not start
  with \<^verbatim>\<open>0\<close>. When a fraction or an exponent follows, the number is a float, which the
  model does not hold: it is refused.
\<close>

definition is_digit :: "char \<Rightarrow> bool" where
  "is_digit c \<longleftrightarrow> 48 \<le> (of_char c :: nat) \<and> (of_char c :: nat) \<le> 57"











text \<open>
  What may follow a value inside a text, and what a value may start with.
\<close>

definition ends_value :: "string \<Rightarrow> bool" where
  "ends_value rest \<longleftrightarrow> rest = [] \<or> hd rest = CHR '','' \<or> hd rest = CHR '']'' \<or> hd rest = CHR ''}''"

definition starts_value :: "string \<Rightarrow> bool" where
  "starts_value s \<longleftrightarrow>
     (case s of [] \<Rightarrow> False | c # r \<Rightarrow> \<not> is_ws c \<and> c \<noteq> CHR '']'' \<and> c \<noteq> CHR ''}'')"




section \<open>How statements compose\<close>

text \<open>
  Every statement of the plugin but the connection and its scope is uniform, so the
  outcome of a block is computed from the outcomes of its statements.
\<close>


lemma uniformI: "(\<And>s. a s = (r, s\<lparr>requests := requests s @ new, calls := calls s @ cs\<rparr>)) \<Longrightarrow> uniform a"
  by (simp add: uniform_def result_def emitted_def called_def init_def)

lemma uniformD:
  "uniform a \<Longrightarrow> a s = (result a, s\<lparr>requests := requests s @ emitted a, calls := calls s @ called a\<rparr>)"
  by (simp add: uniform_def)

lemma submit_uniform [simp]: "uniform (submit r)"
  by (rule uniformI[where r="Inr ()" and new="[r]" and cs="[]"]) (simp add: submit_def)

lemma submit_result [simp]: "result (submit r) = Inr ()"
  by (simp add: result_def submit_def)

lemma submit_emitted [simp]: "emitted (submit r) = [r]"
  by (simp add: emitted_def submit_def init_def)

lemma submit_called [simp]: "called (submit r) = []"
  by (simp add: called_def submit_def init_def)

lemma skip_uniform [simp]: "uniform skip"
  by (rule uniformI[where r="Inr ()" and new="[]" and cs="[]"]) (simp add: skip_def)

lemma skip_result [simp]: "result skip = Inr ()"
  by (simp add: result_def skip_def)

lemma skip_emitted [simp]: "emitted skip = []"
  by (simp add: emitted_def skip_def init_def)

lemma skip_called [simp]: "called skip = []"
  by (simp add: called_def skip_def init_def)

lemma external_uniform [simp]: "uniform (external r)"
  by (rule uniformI[where r="r" and new="[]" and cs="[]"]) (simp add: external_def)

lemma external_result [simp]: "result (external r) = r"
  by (simp add: result_def external_def)

lemma external_emitted [simp]: "emitted (external r) = []"
  by (simp add: emitted_def external_def init_def)

lemma external_called [simp]: "called (external r) = []"
  by (simp add: called_def external_def init_def)

lemma callable_uniform [simp]: "uniform (callable cli name kw)"
  by (rule uniformI[where r="rpc cli name kw" and new="[]" and cs="[(name, kw)]"]) (simp add: callable_def)

lemma callable_result [simp]: "result (callable cli name kw) = rpc cli name kw"
  by (simp add: result_def callable_def)

lemma callable_emitted [simp]: "emitted (callable cli name kw) = []"
  by (simp add: emitted_def callable_def init_def)

lemma callable_called [simp]: "called (callable cli name kw) = [(name, kw)]"
  by (simp add: called_def callable_def init_def)

lemma callable_ids_uniform [simp]: "uniform (callable_ids cli name kw)"
  by (rule uniformI[where r="rpc_ids cli name kw" and new="[]" and cs="[(name, kw)]"]) (simp add: callable_ids_def)

lemma callable_ids_result [simp]: "result (callable_ids cli name kw) = rpc_ids cli name kw"
  by (simp add: result_def callable_ids_def)

lemma callable_ids_emitted [simp]: "emitted (callable_ids cli name kw) = []"
  by (simp add: emitted_def callable_ids_def init_def)

lemma callable_ids_called [simp]: "called (callable_ids cli name kw) = [(name, kw)]"
  by (simp add: called_def callable_ids_def init_def)

lemma bind_apply:
  assumes "uniform m" and "\<And>x. uniform (k x)"
  shows "bind m k s =
    (case result m of
       Inl e \<Rightarrow> (Inl e, s\<lparr>requests := requests s @ emitted m, calls := calls s @ called m\<rparr>)
     | Inr x \<Rightarrow> (result (k x),
         s\<lparr>requests := requests s @ emitted m @ emitted (k x),
           calls := calls s @ called m @ called (k x)\<rparr>))"
  by (simp add: bind_def uniformD[OF assms(1)] uniformD[OF assms(2)] split: sum.splits)

lemma bind_uniform [simp]:
  assumes "uniform m" and "\<And>x. uniform (k x)"
  shows "uniform (bind m k)"
proof (cases "result m")
  case (Inl e)
  show ?thesis
    by (rule uniformI[where r="Inl e" and new="emitted m" and cs="called m"])
       (simp add: bind_apply[OF assms] Inl)
next
  case (Inr x)
  show ?thesis
    by (rule uniformI[where r="result (k x)" and new="emitted m @ emitted (k x)"
          and cs="called m @ called (k x)"])
       (simp add: bind_apply[OF assms] Inr)
qed

lemma bind_result:
  assumes "uniform m" and "\<And>x. uniform (k x)"
  shows "result (bind m k) = (case result m of Inl e \<Rightarrow> Inl e | Inr x \<Rightarrow> result (k x))"
  by (simp add: result_def[of "bind m k"] bind_apply[OF assms] split: sum.splits)

lemma bind_emitted:
  assumes "uniform m" and "\<And>x. uniform (k x)"
  shows "emitted (bind m k) = emitted m @ (case result m of Inl e \<Rightarrow> [] | Inr x \<Rightarrow> emitted (k x))"
  by (simp add: emitted_def[of "bind m k"] bind_apply[OF assms] init_def split: sum.splits)

lemma bind_called:
  assumes "uniform m" and "\<And>x. uniform (k x)"
  shows "called (bind m k) = called m @ (case result m of Inl e \<Rightarrow> [] | Inr x \<Rightarrow> called (k x))"
  by (simp add: called_def[of "bind m k"] bind_apply[OF assms] init_def split: sum.splits)

lemma sequence_Nil_skip: "sequence [] = skip"
  by (rule ext) (simp add: skip_def)

lemma sequence_Cons_bind: "sequence (a # as) = bind a (\<lambda>u. sequence as)"
  by (rule ext) (simp add: bind_def)

lemma sequence_uniform [simp]: "list_all uniform as \<Longrightarrow> uniform (sequence as)"
  by (induction as) (simp_all add: sequence_Nil_skip sequence_Cons_bind)

lemma for_each_uniform [simp]: "(\<And>x. uniform (body x)) \<Longrightarrow> uniform (for_each xs body)"
  by (simp add: for_each_def list_all_iff)

lemma try_except_apply:
  assumes "uniform body" and "\<And>e. uniform (h e)"
  shows "try_except body h s =
    (case result body of
       Inl e \<Rightarrow> (result (h e),
         s\<lparr>requests := requests s @ emitted body @ emitted (h e),
           calls := calls s @ called body @ called (h e)\<rparr>)
     | Inr x \<Rightarrow> (Inr x, s\<lparr>requests := requests s @ emitted body, calls := calls s @ called body\<rparr>))"
  by (simp add: try_except_def uniformD[OF assms(1)] uniformD[OF assms(2)] split: sum.splits)

lemma try_except_uniform [simp]:
  assumes "uniform body" and "\<And>e. uniform (h e)"
  shows "uniform (try_except body h)"
proof (cases "result body")
  case (Inl e)
  show ?thesis
    by (rule uniformI[where r="result (h e)" and new="emitted body @ emitted (h e)"
          and cs="called body @ called (h e)"])
       (simp add: try_except_apply[OF assms] Inl)
next
  case (Inr x)
  show ?thesis
    by (rule uniformI[where r="Inr x" and new="emitted body" and cs="called body"])
       (simp add: try_except_apply[OF assms] Inr)
qed

lemma try_except_result:
  assumes "uniform body" and "\<And>e. uniform (h e)"
  shows "result (try_except body h) = (case result body of Inl e \<Rightarrow> result (h e) | Inr x \<Rightarrow> Inr x)"
  by (simp add: result_def[of "try_except body h"] try_except_apply[OF assms] split: sum.splits)

lemma try_except_emitted:
  assumes "uniform body" and "\<And>e. uniform (h e)"
  shows "emitted (try_except body h) =
    emitted body @ (case result body of Inl e \<Rightarrow> emitted (h e) | Inr x \<Rightarrow> [])"
  by (simp add: emitted_def[of "try_except body h"] try_except_apply[OF assms] init_def
      split: sum.splits)

lemma try_except_called:
  assumes "uniform body" and "\<And>e. uniform (h e)"
  shows "called (try_except body h) =
    called body @ (case result body of Inl e \<Rightarrow> called (h e) | Inr x \<Rightarrow> [])"
  by (simp add: called_def[of "try_except body h"] try_except_apply[OF assms] init_def
      split: sum.splits)

lemmas add_defs = addForbiddenPath_def addCopySpec_def addCopySpecLimit_def collectExtOutput_def
  addStringAsFile_def getOption_def

lemma collectVdsmCommand_uniform [simp]:
  "(\<And>kw. uniform (call kw)) \<Longrightarrow> uniform (collectVdsmCommand env name call kw)"
  by (simp add: collectVdsmCommand_def add_defs)

lemma collectVdsmCommand_result [simp]:
  "(\<And>kw. uniform (call kw)) \<Longrightarrow> result (collectVdsmCommand env name call kw) = Inr ()"
  by (simp add: collectVdsmCommand_def add_defs try_except_result bind_result split: sum.splits)

lemma collectVdsmCommand_emitted [simp]:
  "(\<And>kw. uniform (call kw)) \<Longrightarrow> emitted (call kw) = [] \<Longrightarrow>
    emitted (collectVdsmCommand env name call kw) =
      [StringAsFile (stored_text env (result (call kw))) name]"
  by (simp add: collectVdsmCommand_def add_defs try_except_emitted bind_emitted bind_result
      stored_text_def split: sum.splits)

lemma collectVdsmCommand_called [simp]:
  "(\<And>kw. uniform (call kw)) \<Longrightarrow>
    called (collectVdsmCommand env name call kw) = called (call kw)"
  by (simp add: collectVdsmCommand_def add_defs try_except_called bind_called bind_result
      split: sum.splits)


lemma sequence_Nil_result [simp]: "result (sequence []) = Inr ()"
  by (simp add: sequence_Nil_skip)

lemma sequence_Nil_emitted [simp]: "emitted (sequence []) = []"
  by (simp add: sequence_Nil_skip)

lemma sequence_Nil_called [simp]: "called (sequence []) = []"
  by (simp add: sequence_Nil_skip)

lemma sequence_Cons_result [simp]:
  "uniform a \<Longrightarrow> list_all uniform as \<Longrightarrow>
    result (sequence (a # as)) = (case result a of Inl e \<Rightarrow> Inl e | Inr u \<Rightarrow> result (sequence as))"
  by (simp add: sequence_Cons_bind bind_result)

lemma sequence_Cons_emitted [simp]:
  "uniform a \<Longrightarrow> list_all uniform as \<Longrightarrow>
    emitted (sequence (a # as)) =
      emitted a @ (case result a of Inl e \<Rightarrow> [] | Inr u \<Rightarrow> emitted (sequence as))"
  by (simp add: sequence_Cons_bind bind_emitted)

lemma sequence_Cons_called [simp]:
  "uniform a \<Longrightarrow> list_all uniform as \<Longrightarrow>
    called (sequence (a # as)) =
      called a @ (case result a of Inl e \<Rightarrow> [] | Inr u \<Rightarrow> called (sequence as))"
  by (simp add: sequence_Cons_bind bind_called)

lemma for_each_Nil: "for_each [] body = skip"
  by (simp add: for_each_def sequence_Nil_skip)

lemma for_each_Cons: "for_each (x # xs) body = bind (body x) (\<lambda>u. for_each xs body)"
  by (simp add: for_each_def sequence_Cons_bind)

lemma for_each_result_Inr:
  assumes "\<And>x. uniform (body x)"
  shows "result (for_each xs body) = Inr () \<longleftrightarrow> list_all (\<lambda>x. result (body x) = Inr ()) xs"
  by (induction xs) (simp_all add: for_each_Nil for_each_Cons bind_result assms split: sum.splits)

lemma for_each_emitted_Inr:
  assumes "\<And>x. uniform (body x)" and "result (for_each xs body) = Inr ()"
  shows "emitted (for_each xs body) = concat (map (\<lambda>x. emitted (body x)) xs)"
  using assms(2)
  by (induction xs) (simp_all add: for_each_Nil for_each_Cons bind_result bind_emitted assms(1)
      split: sum.splits)

lemma for_each_called_Inr:
  assumes "\<And>x. uniform (body x)" and "result (for_each xs body) = Inr ()"
  shows "called (for_each xs body) = concat (map (\<lambda>x. called (body x)) xs)"
  using assms(2)
  by (induction xs) (simp_all add: for_each_Nil for_each_Cons bind_result bind_called assms(1)
      split: sum.splits)

lemma for_each_emitted_subset:
  assumes "\<And>x. uniform (body x)"
  shows "set (emitted (for_each xs body)) \<subseteq> (\<Union>x\<in>set xs. set (emitted (body x)))"
  by (induction xs) (auto simp add: for_each_Nil for_each_Cons bind_emitted assms split: sum.splits)

lemma for_each_called_quiet:
  assumes "\<And>x. uniform (body x)" and "\<And>x. called (body x) = []"
  shows "called (for_each xs body) = []"
  by (induction xs) (simp_all add: for_each_Nil for_each_Cons bind_called assms split: sum.splits)


lemma addVdsmRunDir_uniform [simp]: "uniform (addVdsmRunDir env)"
  by (simp add: addVdsmRunDir_def add_defs)

lemma addVdsmRunDir_called [simp]: "called (addVdsmRunDir env) = []"
  unfolding addVdsmRunDir_def
  by (rule for_each_called_quiet) (simp_all add: add_defs bind_called split: sum.splits)

lemma addVdsmRunDir_emitted_subset:
  "set (emitted (addVdsmRunDir env)) \<subseteq> CopySpec ` set (glob_glob env ''/var/run/vdsm/*'')"
proof -
  have "set (emitted (addVdsmRunDir env)) \<subseteq>
      (\<Union>f\<in>set (glob_glob env ''/var/run/vdsm/*''). {CopySpec f})"
    unfolding addVdsmRunDir_def
    by (rule order_trans[OF for_each_emitted_subset])
       (auto simp add: add_defs bind_emitted split: sum.splits if_splits)
  then show ?thesis by auto
qed

lemma setup_local_uniform [simp]: "uniform (setup_local env)"
  by (simp add: setup_local_def add_defs)

lemma setup_local_called [simp]: "called (setup_local env) = []"
  by (simp add: setup_local_def add_defs bind_called for_each_called_quiet split: sum.splits)

lemma setup_vdsm_uniform [simp]: "uniform (setup_vdsm env cli)"
  by (simp add: setup_vdsm_def add_defs)


lemma for_each_result_ok:
  assumes "\<And>x. uniform (body x)" and "\<And>x. result (body x) = Inr ()"
  shows "result (for_each xs body) = Inr ()"
  by (simp add: for_each_result_Inr[OF assms(1)] assms(2) list_all_iff)

lemma for_each_emitted_ok:
  assumes "\<And>x. uniform (body x)" and "\<And>x. result (body x) = Inr ()"
  shows "emitted (for_each xs body) = concat (map (\<lambda>x. emitted (body x)) xs)"
  by (rule for_each_emitted_Inr[OF assms(1) for_each_result_ok[OF assms]])

lemma for_each_called_ok:
  assumes "\<And>x. uniform (body x)" and "\<And>x. result (body x) = Inr ()"
  shows "called (for_each xs body) = concat (map (\<lambda>x. called (body x)) xs)"
  by (rule for_each_called_Inr[OF assms(1) for_each_result_ok[OF assms]])

lemma proc_loop_result [simp]:
  "result (for_each lines (\<lambda>line. sequence [submit (a line), submit (b line), submit (c line)])) = Inr ()"
  by (rule for_each_result_ok) simp_all

lemma proc_loop_emitted [simp]:
  "emitted (for_each lines (\<lambda>line. sequence [submit (a line), submit (b line), submit (c line)]))
    = concat (map (\<lambda>line. [a line, b line, c line]) lines)"
  by (subst for_each_emitted_ok) simp_all

lemma setup_local_result:
  "result (setup_local env) =
    (case result (addVdsmRunDir env) of
       Inl e \<Rightarrow> Inl e
     | Inr u \<Rightarrow> (case pgrep env of Inl e \<Rightarrow> Inl e | Inr lines \<Rightarrow> Inr ()))"
  by (simp add: setup_local_def add_defs bind_result list_all_iff split: sum.splits)

lemma setup_local_emitted:
  "emitted (setup_local env) =
    [ForbiddenPath ''/etc/pki/vdsm/keys/*'',
     ForbiddenPath ''/etc/pki/vdsm/libvirt-spice/*-key.*'',
     ForbiddenPath ''/etc/pki/libvirt/private/*'',
     CmdOutput ''service vdsmd status'',
     CopySpec ''/tmp/vds_installer*'',
     CopySpec ''/tmp/vds_bootstrap*'',
     CopySpec ''/etc/vdsm/*'',
     (if option_value env ''logsize'' \<noteq> PyNone
      then CopySpecLimit ''/var/log/vdsm/*'' (option_value env ''logsize'')
      else CopySpec ''/var/log/vdsm/*'')]
    @ emitted (addVdsmRunDir env)
    @ (case result (addVdsmRunDir env) of
         Inl e \<Rightarrow> []
       | Inr u \<Rightarrow>
           [CopySpec ''/usr/libexec/vdsm/hooks'',
            CopySpec ''/var/lib/vdsm'',
            CopySpec ''/var/log/ovirt.log'',
            CopySpec ''/var/log/sanlock.log'']
           @ (case pgrep env of
                Inl e \<Rightarrow> []
              | Inr lines \<Rightarrow>
                  concat (map (\<lambda>line.
                    [CopySpec (''/proc/'' @ strip line @ ''/cmdline''),
                     CopySpec (''/proc/'' @ strip line @ ''/status''),
                     CopySpec (''/proc/'' @ strip line @ ''/mountstats'')]) lines)
                  @ map CmdOutput
                   [''/bin/ls -ldZ /etc/vdsm'',
                    ''/bin/su vdsm -s /bin/sh -c '/usr/bin/tree -l /rhev/data-center'' @ [CHR 0x27],
                    ''/bin/su vdsm -s /bin/sh -c '/bin/ls -lR /rhev/data-center'' @ [CHR 0x27],
                    ''/sbin/lvm vgs -v -o +tags --config '' @ [CHR 0x27] @ LVM_CONFIG @ [CHR 0x27],
                    ''/sbin/lvm lvs -v -o +tags --config '' @ [CHR 0x27] @ LVM_CONFIG @ [CHR 0x27],
                    ''/sbin/lvm pvs -v -o +all --config '' @ [CHR 0x27] @ LVM_CONFIG @ [CHR 0x27],
                    ''/sbin/fdisk -l'',
                    ''/usr/bin/iostat'',
                    ''/sbin/iscsiadm -m node'',
                    ''/sbin/iscsiadm -m session'',
                    ''/usr/sbin/nodectl info'',
                    ''/usr/bin/abrt-cli list'']))"
  by (simp add: setup_local_def add_defs bind_result bind_emitted list_all_iff split: sum.splits)


lemma pool_loop_result [simp]:
  "result (for_each pools (\<lambda>pool. collectVdsmCommand env (n pool) (callable cli m) (kw pool))) = Inr ()"
  by (rule for_each_result_ok) simp_all

lemma pool_loop_emitted [simp]:
  "emitted (for_each pools (\<lambda>pool. collectVdsmCommand env (n pool) (callable cli m) (kw pool)))
    = map (\<lambda>pool. StringAsFile (stored_text env (rpc cli m (kw pool))) (n pool)) pools"
  by (subst for_each_emitted_ok) simp_all

lemma pool_loop_called [simp]:
  "called (for_each pools (\<lambda>pool. collectVdsmCommand env (n pool) (callable cli m) (kw pool)))
    = map (\<lambda>pool. (m, kw pool)) pools"
  by (subst for_each_called_ok) simp_all

lemma domain_loop_result [simp]:
  "result (for_each sds (\<lambda>sd. submit (r sd))) = Inr ()"
  by (rule for_each_result_ok) simp_all

lemma domain_loop_emitted [simp]:
  "emitted (for_each sds (\<lambda>sd. submit (r sd))) = map r sds"
  by (subst for_each_emitted_ok) simp_all

lemma domain_loop_called [simp]:
  "called (for_each sds (\<lambda>sd. submit (r sd))) = []"
  by (subst for_each_called_ok) simp_all


lemma setup_vdsm_result:
  "result (setup_vdsm env cli) =
    (case rpc_ids cli ''Host.getConnectedStoragePools'' [] of
       Inl e \<Rightarrow> Inl e
     | Inr pools \<Rightarrow>
         if truthy (option_value env ''dump-volume-chains'')
         then (case rpc_ids cli ''Host.getStorageDomains'' [(''domainClass'', PyInt DATA_DOMAIN)] of
                 Inl e \<Rightarrow> Inl e
               | Inr sds \<Rightarrow> Inr ())
         else Inr ())"
  by (simp add: setup_vdsm_def add_defs bind_result split: sum.splits)

lemma setup_vdsm_emitted:
  "emitted (setup_vdsm env cli) =
    [StringAsFile (stored_text env (rpc cli ''Host.getCapabilities'' [])) ''Host.getCapabilities'',
     StringAsFile (stored_text env (rpc cli ''Host.getStats'' [])) ''Host.getStats'',
     StringAsFile (stored_text env (rpc cli ''Host.getAllVmStats'' [])) ''Host.getAllVmStats'',
     StringAsFile (stored_text env (rpc cli ''Host.getVMFullList'' [])) ''Host.getVMFullList'',
     StringAsFile (stored_text env (rpc cli ''Host.getDeviceList'' [(''checkStatus'', PyBool False)]))
       ''Host.getDeviceList'',
     StringAsFile (stored_text env (rpc cli ''Host.hostdevListByCaps'' [])) ''Host.hostdevListByCaps'',
     StringAsFile (stored_text env (rpc cli ''Host.getAllTasksInfo'' [])) ''Host.getAllTasksInfo'',
     StringAsFile (stored_text env (rpc cli ''Host.getAllTasksStatuses'' []))
       ''Host.getAllTasksStatuses'']
    @ (case rpc_ids cli ''Host.getConnectedStoragePools'' [] of
         Inl e \<Rightarrow> []
       | Inr pools \<Rightarrow>
           map (\<lambda>pool. StringAsFile
                  (stored_text env (rpc cli ''StoragePool.getSpmStatus'' [(''storagepoolID'', PyStr pool)]))
                  (''StoragePool.getSpmStatus '' @ pool)) pools
           @ (if truthy (option_value env ''dump-volume-chains'')
              then (case rpc_ids cli ''Host.getStorageDomains'' [(''domainClass'', PyInt DATA_DOMAIN)] of
                      Inl e \<Rightarrow> []
                    | Inr sds \<Rightarrow>
                        map (\<lambda>sd. CmdOutput (''vdsm-tool dump-volume-chains '' @ sd)) sds)
              else []))"
  by (simp add: setup_vdsm_def add_defs bind_result bind_emitted split: sum.splits)

lemma setup_vdsm_called:
  "called (setup_vdsm env cli) =
    [(''Host.getCapabilities'', []),
     (''Host.getStats'', []),
     (''Host.getAllVmStats'', []),
     (''Host.getVMFullList'', []),
     (''Host.getDeviceList'', [(''checkStatus'', PyBool False)]),
     (''Host.hostdevListByCaps'', []),
     (''Host.getAllTasksInfo'', []),
     (''Host.getAllTasksStatuses'', []),
     (''Host.getConnectedStoragePools'', [])]
    @ (case rpc_ids cli ''Host.getConnectedStoragePools'' [] of
         Inl e \<Rightarrow> []
       | Inr pools \<Rightarrow>
           map (\<lambda>pool. (''StoragePool.getSpmStatus'', [(''storagepoolID'', PyStr pool)])) pools
           @ (if truthy (option_value env ''dump-volume-chains'')
              then [(''Host.getStorageDomains'', [(''domainClass'', PyInt DATA_DOMAIN)])]
              else []))"
  by (simp add: setup_vdsm_def add_defs bind_result bind_called split: sum.splits)

lemma vdsm_setup_apply:
  "vdsm_setup env s =
    (case result (setup_local env) of
       Inl e \<Rightarrow> (Inl e, s\<lparr>requests := requests s @ emitted (setup_local env)\<rparr>)
     | Inr u \<Rightarrow>
        (case client_connect env ''localhost'' of
           Inl e \<Rightarrow>
             (Inr (), s\<lparr>requests := requests s @ emitted (setup_local env)
                @ [StringAsFile (''Cannot connect to vdsm: '' @ str e) ''client.connect'']\<rparr>)
         | Inr cli \<Rightarrow>
             (result (setup_vdsm env cli),
              s\<lparr>requests := requests s @ emitted (setup_local env) @ emitted (setup_vdsm env cli),
                calls := calls s @ called (setup_vdsm env cli),
                opened := opened s + 1, closed := closed s + 1\<rparr>)))"
  by (simp add: vdsm_setup_def uniformD[OF setup_local_uniform] uniformD[OF setup_vdsm_uniform]
      connect_def closing_def addStringAsFile_def submit_def split: sum.splits)

lemma vdsm_setup_result:
  "result (vdsm_setup env) =
    (case result (setup_local env) of
       Inl e \<Rightarrow> Inl e
     | Inr u \<Rightarrow>
        (case client_connect env ''localhost'' of
           Inl e \<Rightarrow> Inr ()
         | Inr cli \<Rightarrow> result (setup_vdsm env cli)))"
  by (simp add: result_def[of "vdsm_setup env"] vdsm_setup_apply split: sum.splits)

lemma vdsm_setup_emitted:
  "emitted (vdsm_setup env) =
    emitted (setup_local env) @
    (case result (setup_local env) of
       Inl e \<Rightarrow> []
     | Inr u \<Rightarrow>
        (case client_connect env ''localhost'' of
           Inl e \<Rightarrow> [StringAsFile (''Cannot connect to vdsm: '' @ str e) ''client.connect'']
         | Inr cli \<Rightarrow> emitted (setup_vdsm env cli)))"
  by (simp add: emitted_def[of "vdsm_setup env"] vdsm_setup_apply init_def split: sum.splits)

lemma vdsm_setup_called:
  "called (vdsm_setup env) =
    (case result (setup_local env) of
       Inl e \<Rightarrow> []
     | Inr u \<Rightarrow>
        (case client_connect env ''localhost'' of
           Inl e \<Rightarrow> []
         | Inr cli \<Rightarrow> called (setup_vdsm env cli)))"
  by (simp add: called_def[of "vdsm_setup env"] vdsm_setup_apply init_def split: sum.splits)

lemma vdsm_setup_opens:
  "opens (vdsm_setup env) =
    (case result (setup_local env) of
       Inl e \<Rightarrow> 0
     | Inr u \<Rightarrow> (case client_connect env ''localhost'' of Inl e \<Rightarrow> 0 | Inr cli \<Rightarrow> 1))"
  by (simp add: opens_def vdsm_setup_apply init_def split: sum.splits)

lemma vdsm_setup_closes:
  "closes (vdsm_setup env) =
    (case result (setup_local env) of
       Inl e \<Rightarrow> 0
     | Inr u \<Rightarrow> (case client_connect env ''localhost'' of Inl e \<Rightarrow> 0 | Inr cli \<Rightarrow> 1))"
  by (simp add: closes_def vdsm_setup_apply init_def split: sum.splits)

section \<open>What the requests of a block contain\<close>

lemma string_entries_append [simp]: "string_entries (xs @ ys) = string_entries xs @ string_entries ys"
  by (simp add: string_entries_def)

lemma string_entries_Nil [simp]: "string_entries [] = []"
  by (simp add: string_entries_def)

lemma string_entries_Cons [simp]: "string_entries (r # rs) = entry_of r @ string_entries rs"
  by (simp add: string_entries_def)

lemma string_entries_none: "(\<And>r. r \<in> set rs \<Longrightarrow> entry_of r = []) \<Longrightarrow> string_entries rs = []"
  by (induction rs) simp_all

lemma commands_append [simp]: "commands (xs @ ys) = commands xs @ commands ys"
  by (simp add: commands_def)

lemma commands_Nil [simp]: "commands [] = []"
  by (simp add: commands_def)

lemma commands_Cons [simp]: "commands (r # rs) = command_of r @ commands rs"
  by (simp add: commands_def)

lemma commands_none: "(\<And>r. r \<in> set rs \<Longrightarrow> command_of r = []) \<Longrightarrow> commands rs = []"
  by (induction rs) simp_all

lemma commands_CmdOutput [simp]: "commands (map CmdOutput cs) = cs"
  by (induction cs) simp_all

lemma commands_StringAsFile [simp]: "commands (map (\<lambda>x. StringAsFile (c x) (n x)) xs) = []"
  by (induction xs) simp_all

lemma string_entries_CmdOutput [simp]: "string_entries (map (\<lambda>x. CmdOutput (c x)) xs) = []"
  by (induction xs) simp_all

lemma string_entries_commands [simp]: "string_entries (map CmdOutput xs) = []"
  by (induction xs) simp_all

lemma string_entries_StringAsFile [simp]:
  "string_entries (map (\<lambda>x. StringAsFile (c x) (n x)) xs) = map (\<lambda>x. (n x, c x)) xs"
  by (induction xs) simp_all

lemma run_dir_entries [simp]: "string_entries (emitted (addVdsmRunDir env)) = []"
  using addVdsmRunDir_emitted_subset[of env] by (intro string_entries_none) auto

lemma run_dir_commands [simp]: "commands (emitted (addVdsmRunDir env)) = []"
  using addVdsmRunDir_emitted_subset[of env] by (intro commands_none) auto

lemma proc_entries [simp]:
  "string_entries (concat (map (\<lambda>line. [CopySpec (a line), CopySpec (b line), CopySpec (c line)]) lines)) = []"
  by (induction lines) simp_all

lemma proc_commands [simp]:
  "commands (concat (map (\<lambda>line. [CopySpec (a line), CopySpec (b line), CopySpec (c line)]) lines)) = []"
  by (induction lines) simp_all

lemma setup_local_entries [simp]: "string_entries (emitted (setup_local env)) = []"
  by (simp add: setup_local_emitted split: sum.splits)

lemma setup_local_domain_commands [simp]:
  "filter is_domain_command (commands (emitted (setup_local env))) = []"
  by (simp add: setup_local_emitted is_domain_command_def split: sum.splits)

lemma commands_CmdOutput_map [simp]: "commands (map (\<lambda>x. CmdOutput (c x)) xs) = map c xs"
  by (induction xs) simp_all

lemma for_each_emitted_filter:
  assumes "\<And>x. uniform (body x)"
    and "\<And>x. x \<in> set xs \<Longrightarrow> result (body x) = Inr ()"
    and "\<And>x. x \<in> set xs \<Longrightarrow> emitted (body x) = (if keep x then [r x] else [])"
  shows "result (for_each xs body) = Inr ()
    \<and> emitted (for_each xs body) = map r (filter keep xs)"
  using assms(2,3)
  by (induction xs)
     (simp_all add: for_each_Nil for_each_Cons bind_result bind_emitted assms(1))

lemma addVdsmRunDir_ignores_options [simp]:
  "addVdsmRunDir (env\<lparr>option_value := opt\<rparr>) = addVdsmRunDir env"
  by (simp add: addVdsmRunDir_def cong: if_cong)

lemma setup_vdsm_ignores_logsize [simp]:
  "setup_vdsm (env\<lparr>option_value := (option_value env)(''logsize'' := v)\<rparr>) cli = setup_vdsm env cli"
  by (simp add: setup_vdsm_def collectVdsmCommand_def getOption_def)

lemma setup_local_logsize_result:
  "result (setup_local (env\<lparr>option_value := (option_value env)(''logsize'' := v)\<rparr>))
    = result (setup_local env)"
  by (simp add: setup_local_result cong: sum.case_cong)

lemma setup_local_logsize_emitted:
  "emitted (setup_local (env\<lparr>option_value := (option_value env)(''logsize'' := v)\<rparr>))
    = [ForbiddenPath ''/etc/pki/vdsm/keys/*'',
       ForbiddenPath ''/etc/pki/vdsm/libvirt-spice/*-key.*'',
       ForbiddenPath ''/etc/pki/libvirt/private/*'',
       CmdOutput ''service vdsmd status'',
       CopySpec ''/tmp/vds_installer*'',
       CopySpec ''/tmp/vds_bootstrap*'',
       CopySpec ''/etc/vdsm/*'']
      @ (if v \<noteq> PyNone then CopySpecLimit ''/var/log/vdsm/*'' v else CopySpec ''/var/log/vdsm/*'')
      # drop 8 (emitted (setup_local env))"
  by (simp add: setup_local_emitted cong: sum.case_cong)

lemma copy_paths_append [simp]: "copy_paths (xs @ ys) = copy_paths xs @ copy_paths ys"
  by (simp add: copy_paths_def)

lemma copy_paths_Nil [simp]: "copy_paths [] = []"
  by (simp add: copy_paths_def)

lemma copy_paths_Cons [simp]: "copy_paths (r # rs) = copy_path_of r @ copy_paths rs"
  by (simp add: copy_paths_def)

lemma copy_paths_CmdOutput [simp]: "copy_paths (map (\<lambda>x. CmdOutput (c x)) xs) = []"
  by (induction xs) simp_all

lemma copy_paths_commands [simp]: "copy_paths (map CmdOutput xs) = []"
  by (induction xs) simp_all

lemma copy_paths_StringAsFile [simp]: "copy_paths (map (\<lambda>x. StringAsFile (c x) (n x)) xs) = []"
  by (induction xs) simp_all

lemma copy_paths_subset:
  "set rs \<subseteq> CopySpec ` A \<Longrightarrow> set (copy_paths rs) \<subseteq> A"
  by (induction rs) auto

lemma run_dir_copy_paths:
  "set (copy_paths (emitted (addVdsmRunDir env))) \<subseteq> set (glob_glob env ''/var/run/vdsm/*'')"
  by (rule copy_paths_subset[OF addVdsmRunDir_emitted_subset])

lemma proc_copy_paths:
  "p \<in> set (copy_paths (concat (map (\<lambda>line. [CopySpec (a line), CopySpec (b line), CopySpec (c line)])
     lines))) \<Longrightarrow> \<exists>line. p = a line \<or> p = b line \<or> p = c line"
  by (induction lines) auto

lemma setup_vdsm_copy_paths [simp]: "copy_paths (emitted (setup_vdsm env cli)) = []"
  by (simp add: setup_vdsm_emitted split: sum.splits)

lemma setup_local_copy_paths:
  assumes "\<forall>f\<in>set (glob_glob env ''/var/run/vdsm/*''). take 14 f = ''/var/run/vdsm/''"
    and "p \<in> set (copy_paths (emitted (setup_local env)))"
  shows "take 6 p \<noteq> ''/etc/p''"
proof -
  have run_dir: "take 6 f \<noteq> ''/etc/p''" if "f \<in> set (copy_paths (emitted (addVdsmRunDir env)))" for f
  proof -
    from that run_dir_copy_paths[of env] assms(1) have "take 14 f = ''/var/run/vdsm/''"
      by auto
    then have "take 6 (take 14 f) = ''/var/r''"
      by simp
    then show ?thesis
      by simp
  qed
  from assms(2) show ?thesis
    by (auto simp add: setup_local_emitted split: sum.splits if_splits
        dest: run_dir dest!: proc_copy_paths)
qed

lemma vdsm_setup_copy_paths:
  "set (copy_paths (emitted (vdsm_setup env))) = set (copy_paths (emitted (setup_local env)))"
  by (simp add: vdsm_setup_emitted split: sum.splits)

lemma glob_match_literal:
  "glob_match (lit @ rest) s \<Longrightarrow> CHR ''*'' \<notin> set lit \<Longrightarrow> take (length lit) s = lit"
proof (induction lit arbitrary: s)
  case Nil
  then show ?case by simp
next
  case (Cons c lit)
  then show ?case by (cases s) auto
qed

lemma forbidden_match_prefix:
  assumes "glob_match ''/etc/pki/vdsm/keys/*'' p \<or> glob_match ''/etc/pki/vdsm/libvirt-spice/*-key.*'' p
    \<or> glob_match ''/etc/pki/libvirt/private/*'' p"
  shows "take 6 p = ''/etc/p''"
  using assms
    glob_match_literal[of "''/etc/p''" "''ki/vdsm/keys/*''" p]
    glob_match_literal[of "''/etc/p''" "''ki/vdsm/libvirt-spice/*-key.*''" p]
    glob_match_literal[of "''/etc/p''" "''ki/libvirt/private/*''" p]
  by (auto simp add: eval_nat_numeral)

lemma glob_match_key_file:
  "glob_match ''/etc/pki/vdsm/libvirt-spice/*-key.*'' ''/etc/pki/vdsm/libvirt-spice/server-key.pem''"
  by simp

lemma glob_match_certificate:
  "\<not> glob_match ''/etc/pki/vdsm/libvirt-spice/*-key.*'' ''/etc/pki/vdsm/libvirt-spice/server-cert.pem''"
  by simp

lemma setup_local_options_result:
  "result (setup_local (env\<lparr>option_value := opt\<rparr>)) = result (setup_local env)"
  by (simp add: setup_local_result cong: sum.case_cong)

section \<open>The runs on the example hosts\<close>

lemma addVdsmRunDir_ignores_connect [simp]:
  "addVdsmRunDir (env\<lparr>client_connect := c\<rparr>) = addVdsmRunDir env"
  by (simp add: addVdsmRunDir_def cong: if_cong)

lemma setup_local_ignores_connect [simp]: "setup_local (env\<lparr>client_connect := c\<rparr>) = setup_local env"
  by (simp add: setup_local_def getOption_def)

lemma demo_run_dir_result: "result (addVdsmRunDir demo_env) = Inr ()"
  by (simp add: addVdsmRunDir_def demo_env_def for_each_Cons for_each_Nil bind_result
      endswith_def S_ISSOCK_def S_IFMT_def add_defs)

lemma demo_run_dir_emitted: "emitted (addVdsmRunDir demo_env) = [CopySpec ''/var/run/vdsm/vdsmd.pid'']"
  by (simp add: addVdsmRunDir_def demo_env_def for_each_Cons for_each_Nil bind_result bind_emitted
      endswith_def S_ISSOCK_def S_IFMT_def add_defs)

lemma demo_local_result: "result (setup_local demo_env) = Inr ()"
  by (simp add: setup_local_result demo_run_dir_result) (simp add: demo_env_def)

lemma demo_connect: "client_connect demo_env ''localhost'' = Inr demo_client"
  by (simp add: demo_env_def)

lemma demo_pools: "rpc_ids demo_client ''Host.getConnectedStoragePools'' [] = Inr [''pool1'', ''pool2'']"
  by (simp add: demo_client_def)

lemma demo_domains:
  "rpc_ids demo_client ''Host.getStorageDomains'' [(''domainClass'', PyInt DATA_DOMAIN)]
    = Inr [''sd1'', ''sd2'']"
  by (simp add: demo_client_def)

lemma demo_toggle: "option_value demo_env ''dump-volume-chains'' = PyBool True"
  by (simp add: demo_env_def)

lemma demo_remote_result: "result (setup_vdsm demo_env demo_client) = Inr ()"
  by (simp add: setup_vdsm_result demo_pools demo_domains demo_toggle)

lemma demo_result: "result (vdsm_setup demo_env) = Inr ()"
  by (simp add: vdsm_setup_result demo_local_result demo_connect demo_remote_result)

lemma pools_fail_connect:
  "client_connect env_pools_fail ''localhost''
    = Inr (demo_client\<lparr>rpc_ids := (\<lambda>name kw. Inl (Exception ''Not connected to storage''))\<rparr>)"
  by (simp add: env_pools_fail_def)

lemma pools_fail_local: "result (setup_local env_pools_fail) = Inr ()"
  by (simp add: env_pools_fail_def demo_local_result)

lemma pools_fail_result: "result (vdsm_setup env_pools_fail) = Inl (Exception ''Not connected to storage'')"
  by (simp add: vdsm_setup_result pools_fail_local pools_fail_connect setup_vdsm_result)

lemma pools_fail_toggle: "truthy (option_value env_pools_fail ''dump-volume-chains'')"
  by (simp add: env_pools_fail_def demo_env_def)

lemma noconn_local: "result (setup_local env_noconn) = Inr ()"
  by (simp add: env_noconn_def demo_local_result)

lemma noconn_connect: "client_connect env_noconn ''localhost'' = Inl (Exception ''Connection refused'')"
  by (simp add: env_noconn_def)

lemma demo_files_under_run_dir:
  "\<forall>f\<in>set (glob_glob demo_env ''/var/run/vdsm/*''). take 14 f = ''/var/run/vdsm/''"
  by (simp add: demo_env_def)

lemma demo_copy_paths:
  "''/var/run/vdsm/vdsmd.pid'' \<in> set (copy_paths (emitted (vdsm_setup demo_env)))
   \<and> ''/etc/vdsm/*'' \<in> set (copy_paths (emitted (vdsm_setup demo_env)))"
  by (simp add: vdsm_setup_copy_paths setup_local_emitted demo_run_dir_emitted)

lemma no_dump_local: "result (setup_local env_no_dump) = Inr ()"
  by (simp add: env_no_dump_def setup_local_options_result demo_local_result)

lemma no_dump_connect: "client_connect env_no_dump ''localhost'' = Inr demo_client"
  by (simp add: env_no_dump_def demo_env_def)

lemma no_dump_toggle: "\<not> truthy (option_value env_no_dump ''dump-volume-chains'')"
  by (simp add: env_no_dump_def)

lemma unset_logsize: "option_value env_unset ''logsize'' = PyBool False"
  by (simp add: env_unset_def sos_get_option_def option_list_def)

lemma unset_toggle: "option_value env_unset ''dump-volume-chains'' = PyBool False"
  by (simp add: env_unset_def sos_get_option_def option_list_def)

lemma unset_run_dir_result: "result (addVdsmRunDir env_unset) = Inr ()"
  by (simp add: env_unset_def demo_run_dir_result)

lemma unset_run_dir_emitted: "emitted (addVdsmRunDir env_unset) = [CopySpec ''/var/run/vdsm/vdsmd.pid'']"
  by (simp add: env_unset_def demo_run_dir_emitted)

lemma unset_pgrep: "pgrep env_unset = Inr [''4242'']"
  by (simp add: env_unset_def demo_env_def)

lemma unset_connect: "client_connect env_unset ''localhost'' = Inr demo_client"
  by (simp add: env_unset_def demo_env_def)

lemma unset_local_result: "result (setup_local env_unset) = Inr ()"
  by (simp add: env_unset_def setup_local_options_result demo_local_result)

lemma stat_fail_run_dir:
  "result (addVdsmRunDir env_stat_fail) = Inl (Exception ''[Errno 2] No such file or directory'')"
  by (simp add: addVdsmRunDir_def env_stat_fail_def demo_env_def for_each_Cons for_each_Nil
      bind_result endswith_def add_defs)

section \<open>Runs without a raised exception\<close>

text \<open>
  What the plugin does when the connection is refused, what the value of the log size
  option changes, and what the run directory contributes when \<^verbatim>\<open>os.stat\<close> returns.
\<close>

lemma connect_failure_skips_remote_calls:
  "(result (setup_local env) = Inr () \<and> client_connect env ''localhost'' = Inl e \<longrightarrow>
      result (vdsm_setup env) = Inr ()
      \<and> emitted (vdsm_setup env) = emitted (setup_local env)
           @ [StringAsFile (''Cannot connect to vdsm: '' @ str e) ''client.connect'']
      \<and> string_entries (emitted (vdsm_setup env))
           = [(''client.connect'', ''Cannot connect to vdsm: '' @ str e)]
      \<and> called (vdsm_setup env) = []
      \<and> opens (vdsm_setup env) = 0)
   \<and> (result (vdsm_setup env) = Inr () \<and> client_connect env ''localhost'' = Inr cli \<longrightarrow>
      (\<exists>pools. rpc_ids cli ''Host.getConnectedStoragePools'' [] = Inr pools
        \<and> map fst (string_entries (emitted (vdsm_setup env)))
           = [''Host.getCapabilities'', ''Host.getStats'', ''Host.getAllVmStats'',
              ''Host.getVMFullList'', ''Host.getDeviceList'', ''Host.hostdevListByCaps'',
              ''Host.getAllTasksInfo'', ''Host.getAllTasksStatuses'']
             @ map (\<lambda>pool. ''StoragePool.getSpmStatus '' @ pool) pools))"
proof (intro conjI impI)
  assume h: "result (setup_local env) = Inr () \<and> client_connect env ''localhost'' = Inl e"
  then show "result (vdsm_setup env) = Inr ()"
    by (simp add: vdsm_setup_result)
  from h show "emitted (vdsm_setup env) = emitted (setup_local env)
      @ [StringAsFile (''Cannot connect to vdsm: '' @ str e) ''client.connect'']"
    by (simp add: vdsm_setup_emitted)
  from h show "string_entries (emitted (vdsm_setup env))
      = [(''client.connect'', ''Cannot connect to vdsm: '' @ str e)]"
    by (simp add: vdsm_setup_emitted)
  from h show "called (vdsm_setup env) = []"
    by (simp add: vdsm_setup_called)
  from h show "opens (vdsm_setup env) = 0"
    by (simp add: vdsm_setup_opens)
next
  assume h: "result (vdsm_setup env) = Inr () \<and> client_connect env ''localhost'' = Inr cli"
  then have returns: "result (vdsm_setup env) = Inr ()"
    and connected: "client_connect env ''localhost'' = Inr cli"
    by simp_all
  from returns have local: "result (setup_local env) = Inr ()"
    by (cases "result (setup_local env)") (simp_all add: vdsm_setup_result)
  from returns have remote: "result (setup_vdsm env cli) = Inr ()"
    by (simp add: vdsm_setup_result local connected)
  then obtain pools where pools: "rpc_ids cli ''Host.getConnectedStoragePools'' [] = Inr pools"
    by (cases "rpc_ids cli ''Host.getConnectedStoragePools'' []") (simp_all add: setup_vdsm_result)
  have "map fst (string_entries (emitted (vdsm_setup env)))
      = [''Host.getCapabilities'', ''Host.getStats'', ''Host.getAllVmStats'',
         ''Host.getVMFullList'', ''Host.getDeviceList'', ''Host.hostdevListByCaps'',
         ''Host.getAllTasksInfo'', ''Host.getAllTasksStatuses'']
        @ map (\<lambda>pool. ''StoragePool.getSpmStatus '' @ pool) pools"
    by (simp add: vdsm_setup_emitted setup_vdsm_emitted local connected pools comp_def
        split: sum.splits)
  with pools show "\<exists>pools. rpc_ids cli ''Host.getConnectedStoragePools'' [] = Inr pools
        \<and> map fst (string_entries (emitted (vdsm_setup env)))
           = [''Host.getCapabilities'', ''Host.getStats'', ''Host.getAllVmStats'',
              ''Host.getVMFullList'', ''Host.getDeviceList'', ''Host.hostdevListByCaps'',
              ''Host.getAllTasksInfo'', ''Host.getAllTasksStatuses'']
             @ map (\<lambda>pool. ''StoragePool.getSpmStatus '' @ pool) pools"
    by blast
qed

lemma logsize_changes_one_request:
  "\<exists>post res cs. \<forall>v.
     emitted (vdsm_setup (env\<lparr>option_value := (option_value env)(''logsize'' := v)\<rparr>))
       = [ForbiddenPath ''/etc/pki/vdsm/keys/*'',
          ForbiddenPath ''/etc/pki/vdsm/libvirt-spice/*-key.*'',
          ForbiddenPath ''/etc/pki/libvirt/private/*'',
          CmdOutput ''service vdsmd status'',
          CopySpec ''/tmp/vds_installer*'',
          CopySpec ''/tmp/vds_bootstrap*'',
          CopySpec ''/etc/vdsm/*'']
         @ (if v \<noteq> PyNone then CopySpecLimit ''/var/log/vdsm/*'' v
            else CopySpec ''/var/log/vdsm/*'')
         # post
     \<and> result (vdsm_setup (env\<lparr>option_value := (option_value env)(''logsize'' := v)\<rparr>)) = res
     \<and> called (vdsm_setup (env\<lparr>option_value := (option_value env)(''logsize'' := v)\<rparr>)) = cs"
proof (intro exI allI)
  fix v
  show "emitted (vdsm_setup (env\<lparr>option_value := (option_value env)(''logsize'' := v)\<rparr>))
       = [ForbiddenPath ''/etc/pki/vdsm/keys/*'',
          ForbiddenPath ''/etc/pki/vdsm/libvirt-spice/*-key.*'',
          ForbiddenPath ''/etc/pki/libvirt/private/*'',
          CmdOutput ''service vdsmd status'',
          CopySpec ''/tmp/vds_installer*'',
          CopySpec ''/tmp/vds_bootstrap*'',
          CopySpec ''/etc/vdsm/*'']
         @ (if v \<noteq> PyNone then CopySpecLimit ''/var/log/vdsm/*'' v
            else CopySpec ''/var/log/vdsm/*'')
         # (drop 8 (emitted (setup_local env))
            @ (case result (setup_local env) of
                 Inl e \<Rightarrow> []
               | Inr u \<Rightarrow>
                  (case client_connect env ''localhost'' of
                     Inl e \<Rightarrow> [StringAsFile (''Cannot connect to vdsm: '' @ str e) ''client.connect'']
                   | Inr cli \<Rightarrow> emitted (setup_vdsm env cli))))
     \<and> result (vdsm_setup (env\<lparr>option_value := (option_value env)(''logsize'' := v)\<rparr>))
        = result (vdsm_setup env)
     \<and> called (vdsm_setup (env\<lparr>option_value := (option_value env)(''logsize'' := v)\<rparr>))
        = called (vdsm_setup env)"
    by (simp add: vdsm_setup_emitted vdsm_setup_result vdsm_setup_called
        setup_local_logsize_result setup_local_logsize_emitted split: sum.splits)
qed

lemma run_dir_copies_what_passes:
  assumes "\<forall>f\<in>set (glob_glob env ''/var/run/vdsm/*'').
      \<not> endswith f ''.vfd'' \<and> \<not> endswith f ''/isoUploader'' \<and> \<not> endswith f ''/storage''
      \<longrightarrow> (\<exists>mode. os_stat env f = Inr mode)"
  shows "result (addVdsmRunDir env) = Inr ()
    \<and> emitted (addVdsmRunDir env)
        = map CopySpec (filter (\<lambda>f. \<not> endswith f ''.vfd'' \<and> \<not> endswith f ''/isoUploader''
              \<and> \<not> endswith f ''/storage'' \<and> \<not> is_socket env f)
            (glob_glob env ''/var/run/vdsm/*''))
    \<and> (\<forall>f\<in>set (glob_glob env ''/var/run/vdsm/*'').
          CopySpec f \<in> set (emitted (addVdsmRunDir env))
          \<longleftrightarrow> \<not> endswith f ''.vfd'' \<and> \<not> endswith f ''/isoUploader''
              \<and> \<not> endswith f ''/storage'' \<and> \<not> is_socket env f)"
proof -
  define body where "body = (\<lambda>f.
       if \<not> endswith f ''.vfd'' \<and> \<not> endswith f ''/isoUploader'' \<and> \<not> endswith f ''/storage''
       then bind (external (os_stat env f)) (\<lambda>mode.
              if \<not> S_ISSOCK mode then addCopySpec f else skip)
       else skip)"
  define keep where "keep = (\<lambda>f. \<not> endswith f ''.vfd'' \<and> \<not> endswith f ''/isoUploader''
      \<and> \<not> endswith f ''/storage'' \<and> \<not> is_socket env f)"
  have run: "addVdsmRunDir env = for_each (glob_glob env ''/var/run/vdsm/*'') body"
    by (simp add: addVdsmRunDir_def body_def)
  have unif: "uniform (body f)" for f
    by (simp add: body_def add_defs)
  have returns: "result (body f) = Inr ()" if "f \<in> set (glob_glob env ''/var/run/vdsm/*'')" for f
    using assms that by (auto simp add: body_def bind_result add_defs)
  have emits: "emitted (body f) = (if keep f then [CopySpec f] else [])"
    if "f \<in> set (glob_glob env ''/var/run/vdsm/*'')" for f
    using assms that
    by (auto simp add: body_def keep_def is_socket_def bind_result bind_emitted add_defs)
  from for_each_emitted_filter[of body "glob_glob env ''/var/run/vdsm/*''" keep CopySpec,
      OF unif returns emits]
  have both: "result (addVdsmRunDir env) = Inr ()
      \<and> emitted (addVdsmRunDir env) = map CopySpec (filter keep (glob_glob env ''/var/run/vdsm/*''))"
    by (simp add: run)
  then have "\<forall>f\<in>set (glob_glob env ''/var/run/vdsm/*'').
      CopySpec f \<in> set (emitted (addVdsmRunDir env)) \<longleftrightarrow> keep f"
    by auto
  with both show ?thesis
    by (simp add: keep_def)
qed


section \<open>JSON text read back\<close>

text \<open>
  The decoder reads back what the serializer wrote: first integers, then strings, then
  the items of a list and of a dict, then values by induction.
\<close>

lemma of_char_digit_char: "d < 10 \<Longrightarrow> (of_char (digit_char d) :: nat) = 48 + d"
  by (simp add: digit_char_def)

lemma is_digit_digit_char: "d < 10 \<Longrightarrow> is_digit (digit_char d)"
  by (simp add: is_digit_def of_char_digit_char)





lemma show_nat_digits: "list_all is_digit (show_nat n)"
  by (induction n rule: show_nat.induct) (subst show_nat.simps, simp add: is_digit_digit_char)


lemma show_nat_nonempty: "show_nat n \<noteq> []"
  by (subst show_nat.simps) simp













lemma skip_ws_Nil [simp]: "skip_ws [] = []"
  by (simp add: skip_ws_def)

lemma skip_ws_head: "\<not> is_ws c \<Longrightarrow> skip_ws (c # s) = c # s"
  by (simp add: skip_ws_def)




lemma is_digit_not_special:
  "is_digit c \<Longrightarrow> \<not> is_ws c \<and> c \<noteq> CHR '']'' \<and> c \<noteq> CHR ''}'' \<and> c \<noteq> CHR 0x22
     \<and> c \<noteq> CHR ''{'' \<and> c \<noteq> CHR ''['' \<and> c \<noteq> CHR ''n'' \<and> c \<noteq> CHR ''t'' \<and> c \<noteq> CHR ''f''"
  by (auto simp add: is_digit_def is_ws_def)

lemma show_int_head:
  "\<exists>c r. show_int i = c # r \<and> (c = CHR ''-'' \<or> is_digit c)"
proof -
  obtain c cs where "show_nat (nat i) = c # cs"
    using show_nat_nonempty[of "nat i"] by (cases "show_nat (nat i)") auto
  with show_nat_digits[of "nat i"] show ?thesis
    by (auto simp add: show_int_def)
qed

lemma starts_value_dumps: "starts_value (dumps v)"
proof (cases v)
  case (JInt i)
  from show_int_head[of i] obtain c r where "show_int i = c # r" and "c = CHR ''-'' \<or> is_digit c"
    by blast
  with JInt is_digit_not_special[of c] show ?thesis
    by (auto simp add: starts_value_def is_ws_def)
qed (simp_all add: starts_value_def is_ws_def encode_string_def)

lemma dumps_nonempty: "dumps v \<noteq> []"
  using starts_value_dumps[of v] by (auto simp add: starts_value_def)

lemma dumps_length: "1 \<le> length (dumps v)"
  using dumps_nonempty[of v] by (cases "dumps v") simp_all


lemma ends_value_simps [simp]:
  "ends_value (CHR '','' # s)" "ends_value (CHR '']'' # s)" "ends_value (CHR ''}'' # s)" "ends_value []"
  by (simp_all add: ends_value_def)

lemma skip_ws_delimiters [simp]:
  "skip_ws (CHR '','' # s) = CHR '','' # s"
  "skip_ws (CHR '']'' # s) = CHR '']'' # s"
  "skip_ws (CHR ''}'' # s) = CHR ''}'' # s"
  "skip_ws (CHR '':'' # s) = CHR '':'' # s"
  by (simp_all add: skip_ws_head is_ws_def)









declare dumps.simps(6) [simp del]





section \<open>The claims\<close>

subsection \<open>C1: a failure in one action\<close>

text \<open>
  C1 says that no failure in a single action aborts the run. The two discovery calls are
  made outside \<^verbatim>\<open>collectVdsmCommand\<close>, so an exception of theirs is not caught: on the
  example host whose discovery calls raise, with the connection established,
  \<^verbatim>\<open>setup\<close> raises the exception of \<^verbatim>\<open>Host.getConnectedStoragePools\<close>, and the
  storage domains are never asked for although the option is set.
\<close>

theorem discovery_failure_aborts_run:
  "result (vdsm_setup env_pools_fail) = Inl (Exception ''Not connected to storage'')
   \<and> truthy (option_value env_pools_fail ''dump-volume-chains'')
   \<and> (''Host.getStorageDomains'', [(''domainClass'', PyInt DATA_DOMAIN)])
        \<notin> set (called (vdsm_setup env_pools_fail))"
  by (simp add: pools_fail_result pools_fail_toggle vdsm_setup_called pools_fail_local
      pools_fail_connect setup_vdsm_called)

subsection \<open>C2: capture or error string\<close>

text \<open>
  C2. \<^verbatim>\<open>collectVdsmCommand\<close> with name \<open>name\<close>, callable \<open>call\<close> and keyword
  arguments \<open>kw\<close>, from any state \<open>s\<close>: when the call returns \<open>v\<close> and
  \<^verbatim>\<open>json.dumps\<close> gives \<open>t\<close> for it, the string \<open>t\<close> is stored under \<open>name\<close>; when the
  call raises \<open>e\<close>, \<^verbatim>\<open>str(e)\<close> is stored under \<open>name\<close>; when the call returns and
  the serialisation raises, the string of that exception is stored under \<open>name\<close>. In
  every case exactly one request is added to those the call left behind, it is a string
  stored under \<open>name\<close>, and \<^verbatim>\<open>collectVdsmCommand\<close> returns without raising.
\<close>

theorem collectVdsmCommand_stores_one_entry:
  "(call kw s = (Inr v, s1) \<and> json_dumps env v = Inr t \<longrightarrow>
      collectVdsmCommand env name call kw s
        = (Inr (), s1\<lparr>requests := requests s1 @ [StringAsFile t name]\<rparr>))
   \<and> (call kw s = (Inl e, s1) \<longrightarrow>
      collectVdsmCommand env name call kw s
        = (Inr (), s1\<lparr>requests := requests s1 @ [StringAsFile (str e) name]\<rparr>))
   \<and> (call kw s = (Inr v, s1) \<and> json_dumps env v = Inl e \<longrightarrow>
      collectVdsmCommand env name call kw s
        = (Inr (), s1\<lparr>requests := requests s1 @ [StringAsFile (str e) name]\<rparr>))
   \<and> (\<exists>content. collectVdsmCommand env name call kw s
        = (Inr (), (snd (call kw s))\<lparr>requests := requests (snd (call kw s)) @ [StringAsFile content name]\<rparr>))"
  by (cases "call kw s"; cases "fst (call kw s)")
     (auto simp add: collectVdsmCommand_def try_except_def bind_def external_def
        addStringAsFile_def submit_def split: sum.splits)

text \<open>
  On the example host \<^verbatim>\<open>Host.getCapabilities\<close> returns \<^verbatim>\<open>True\<close> and
  \<^verbatim>\<open>Host.getStats\<close> raises; with the serialiser that rejects every result, the string
  of its exception is stored.
\<close>

theorem collectVdsmCommand_stores_one_entry_witness:
  "collectVdsmCommand demo_env ''Host.getCapabilities'' (callable demo_client ''Host.getCapabilities'') [] init
     = (Inr (), init\<lparr>requests := [StringAsFile ''true'' ''Host.getCapabilities''],
                       calls := [(''Host.getCapabilities'', [])]\<rparr>)
   \<and> collectVdsmCommand demo_env ''Host.getStats'' (callable demo_client ''Host.getStats'') [] init
     = (Inr (), init\<lparr>requests := [StringAsFile ''Request timed out'' ''Host.getStats''],
                       calls := [(''Host.getStats'', [])]\<rparr>)
   \<and> collectVdsmCommand env_no_json ''Host.getCapabilities''
        (callable demo_client ''Host.getCapabilities'') [] init
     = (Inr (), init\<lparr>requests :=
          [StringAsFile ''Object is not JSON serializable'' ''Host.getCapabilities''],
          calls := [(''Host.getCapabilities'', [])]\<rparr>)"
proof -
  have ok: "callable demo_client ''Host.getCapabilities'' [] init
      = (Inr True, init\<lparr>calls := [(''Host.getCapabilities'', [])]\<rparr>)"
    by (simp add: callable_def demo_client_def init_def)
  have dumps: "json_dumps demo_env True = Inr ''true''"
    by (simp add: demo_env_def demo_dumps_def)
  have rejects: "json_dumps env_no_json True
      = Inl (Exception ''Object is not JSON serializable'')"
    by (simp add: env_no_json_def)
  have raised: "callable demo_client ''Host.getStats'' [] init
      = (Inl (Exception ''Request timed out''), init\<lparr>calls := [(''Host.getStats'', [])]\<rparr>)"
    by (simp add: callable_def demo_client_def init_def)
  from collectVdsmCommand_stores_one_entry
    [of "callable demo_client ''Host.getCapabilities''" "[]" init True
      "init\<lparr>calls := [(''Host.getCapabilities'', [])]\<rparr>" demo_env "''true''" "''Host.getCapabilities''"]
    ok dumps
  have first: "collectVdsmCommand demo_env ''Host.getCapabilities''
      (callable demo_client ''Host.getCapabilities'') [] init
     = (Inr (), init\<lparr>requests := [StringAsFile ''true'' ''Host.getCapabilities''],
                       calls := [(''Host.getCapabilities'', [])]\<rparr>)"
    by (simp add: init_def)
  from collectVdsmCommand_stores_one_entry
    [of "callable demo_client ''Host.getStats''" "[]" init _
      "init\<lparr>calls := [(''Host.getStats'', [])]\<rparr>" demo_env _ "''Host.getStats''"
      "Exception ''Request timed out''"]
    raised
  have second: "collectVdsmCommand demo_env ''Host.getStats''
      (callable demo_client ''Host.getStats'') [] init
     = (Inr (), init\<lparr>requests := [StringAsFile ''Request timed out'' ''Host.getStats''],
                       calls := [(''Host.getStats'', [])]\<rparr>)"
    by (simp add: init_def)
  from collectVdsmCommand_stores_one_entry
    [of "callable demo_client ''Host.getCapabilities''" "[]" init True
      "init\<lparr>calls := [(''Host.getCapabilities'', [])]\<rparr>" env_no_json _ "''Host.getCapabilities''"
      "Exception ''Object is not JSON serializable''"]
    ok rejects
  have third: "collectVdsmCommand env_no_json ''Host.getCapabilities''
        (callable demo_client ''Host.getCapabilities'') [] init
     = (Inr (), init\<lparr>requests :=
          [StringAsFile ''Object is not JSON serializable'' ''Host.getCapabilities''],
          calls := [(''Host.getCapabilities'', [])]\<rparr>)"
    by (simp add: init_def)
  from first second third show ?thesis by simp
qed

subsection \<open>C3: the stored entry reads back as the result\<close>



subsection \<open>C4: when the connection fails\<close>

text \<open>
  C4 says that the failure of the connection is the only early exit of the collector. On
  the example host whose discovery calls raise, the connection is established and the
  eight host calls are stored; then \<^verbatim>\<open>Host.getConnectedStoragePools\<close> raises and the run
  ends there, with that exception: nothing is stored for a storage pool, and no
  \<^verbatim>\<open>vdsm-tool dump-volume-chains\<close> command is requested although the option is set.
\<close>

theorem early_exit_with_connection_established:
  "opens (vdsm_setup env_pools_fail) = 1
   \<and> map fst (string_entries (emitted (vdsm_setup env_pools_fail)))
      = [''Host.getCapabilities'', ''Host.getStats'', ''Host.getAllVmStats'',
         ''Host.getVMFullList'', ''Host.getDeviceList'', ''Host.hostdevListByCaps'',
         ''Host.getAllTasksInfo'', ''Host.getAllTasksStatuses'']
   \<and> truthy (option_value env_pools_fail ''dump-volume-chains'')
   \<and> filter is_domain_command (commands (emitted (vdsm_setup env_pools_fail))) = []
   \<and> result (vdsm_setup env_pools_fail) = Inl (Exception ''Not connected to storage'')"
  by (simp add: vdsm_setup_opens vdsm_setup_emitted pools_fail_local pools_fail_connect
      setup_vdsm_emitted pools_fail_toggle pools_fail_result)

subsection \<open>C5: the connection is closed\<close>

text \<open>
  C5. In every run at most one connection is established, and as many connections are
  closed as were established. In a run that reaches \<^verbatim>\<open>client.connect\<close> and in which it
  returns a connection, one connection is established and one is closed by the end of the
  run, whatever the calls made through it return or raise, the discovery calls included.
\<close>

theorem connection_closed_on_every_path:
  "opens (vdsm_setup env) \<le> 1
   \<and> closes (vdsm_setup env) = opens (vdsm_setup env)
   \<and> (result (setup_local env) = Inr () \<and> client_connect env ''localhost'' = Inr cli \<longrightarrow>
        opens (vdsm_setup env) = 1 \<and> closes (vdsm_setup env) = 1)"
  by (simp add: vdsm_setup_opens vdsm_setup_closes split: sum.splits)

text \<open>
  On the example hosts: a run in which the pool discovery raises, a run that returns, and
  a run in which the connection is refused.
\<close>

theorem connection_closed_on_every_path_witness:
  "result (vdsm_setup env_pools_fail) = Inl (Exception ''Not connected to storage'')
   \<and> opens (vdsm_setup env_pools_fail) = 1 \<and> closes (vdsm_setup env_pools_fail) = 1
   \<and> result (vdsm_setup demo_env) = Inr ()
   \<and> opens (vdsm_setup demo_env) = 1 \<and> closes (vdsm_setup demo_env) = 1
   \<and> opens (vdsm_setup env_noconn) = 0 \<and> closes (vdsm_setup env_noconn) = 0"
proof -
  from connection_closed_on_every_path[of env_pools_fail] pools_fail_local pools_fail_connect
  have raised: "opens (vdsm_setup env_pools_fail) = 1 \<and> closes (vdsm_setup env_pools_fail) = 1"
    by simp
  from connection_closed_on_every_path[of demo_env demo_client] demo_local_result demo_connect
  have returned: "opens (vdsm_setup demo_env) = 1 \<and> closes (vdsm_setup demo_env) = 1"
    by simp
  have "opens (vdsm_setup env_noconn) = 0"
    by (simp add: vdsm_setup_opens env_noconn_def demo_local_result)
  with connection_closed_on_every_path[of env_noconn]
  have refused: "opens (vdsm_setup env_noconn) = 0 \<and> closes (vdsm_setup env_noconn) = 0"
    by simp
  from raised returned refused pools_fail_result demo_result show ?thesis by simp
qed

subsection \<open>C6: one status entry per storage pool\<close>

text \<open>
  C6. In a run that reaches the pool discovery (the part before \<^verbatim>\<open>client.connect\<close>
  returned and the connection was established), when the discovery returns \<open>pools\<close>: the
  strings stored under a name that starts with \<^verbatim>\<open>"StoragePool.getSpmStatus "\<close> are, in
  order, one per element of \<open>pools\<close>, named \<^verbatim>\<open>"StoragePool.getSpmStatus " + pool\<close>,
  and holding what \<^verbatim>\<open>collectVdsmCommand\<close> stores for the answer of
  \<^verbatim>\<open>StoragePool.getSpmStatus(storagepoolID=pool)\<close>: the error string when that call
  raises, which leaves the entries of the other pools in place. The status calls sent to
  vdsm are, in order, one per element of \<open>pools\<close>.
\<close>

theorem one_entry_per_storage_pool:
  assumes "result (setup_local env) = Inr ()"
    and "client_connect env ''localhost'' = Inr cli"
    and "rpc_ids cli ''Host.getConnectedStoragePools'' [] = Inr pools"
  shows "filter (\<lambda>(name, content). is_pool_status name) (string_entries (emitted (vdsm_setup env)))
      = map (\<lambda>pool. (''StoragePool.getSpmStatus '' @ pool,
               stored_text env (rpc cli ''StoragePool.getSpmStatus'' [(''storagepoolID'', PyStr pool)])))
          pools
    \<and> filter (\<lambda>(name, kw). name = ''StoragePool.getSpmStatus'') (called (vdsm_setup env))
      = map (\<lambda>pool. (''StoragePool.getSpmStatus'', [(''storagepoolID'', PyStr pool)])) pools"
  by (simp add: vdsm_setup_emitted vdsm_setup_called setup_vdsm_emitted setup_vdsm_called assms
      is_pool_status_def filter_map comp_def split: sum.splits)

text \<open>On the example host the status call raises for the first pool and returns for the second.\<close>

theorem one_entry_per_storage_pool_witness:
  "filter (\<lambda>(name, content). is_pool_status name) (string_entries (emitted (vdsm_setup demo_env)))
      = [(''StoragePool.getSpmStatus pool1'', ''Unknown pool id''),
         (''StoragePool.getSpmStatus pool2'', ''true'')]
   \<and> filter (\<lambda>(name, kw). name = ''StoragePool.getSpmStatus'') (called (vdsm_setup demo_env))
      = [(''StoragePool.getSpmStatus'', [(''storagepoolID'', PyStr ''pool1'')]),
         (''StoragePool.getSpmStatus'', [(''storagepoolID'', PyStr ''pool2'')])]"
proof -
  have failed: "stored_text demo_env
      (rpc demo_client ''StoragePool.getSpmStatus'' [(''storagepoolID'', PyStr ''pool1'')])
      = ''Unknown pool id''"
    by (simp add: stored_text_def demo_client_def)
  have answered: "stored_text demo_env
      (rpc demo_client ''StoragePool.getSpmStatus'' [(''storagepoolID'', PyStr ''pool2'')])
      = ''true''"
    by (simp add: stored_text_def demo_client_def demo_env_def demo_dumps_def)
  from one_entry_per_storage_pool[OF demo_local_result demo_connect demo_pools] failed answered
  show ?thesis by simp
qed

subsection \<open>C7: the log size option\<close>

text \<open>
  C7 says that \<^verbatim>\<open>/var/log/vdsm/*\<close> is requested without a size limit when the user
  does not set \<^verbatim>\<open>logsize\<close>. \<^verbatim>\<open>option_list\<close> declares \<^verbatim>\<open>False\<close> as the default of
  \<^verbatim>\<open>logsize\<close>, and that is what \<^verbatim>\<open>getOption\<close> returns then; \<^verbatim>\<open>False\<close> is not
  \<^verbatim>\<open>None\<close>, so the test of line 140 holds: on the example host with no option set, the
  eighth request is the path with the size limit \<^verbatim>\<open>False\<close>, and the path is never
  requested without a limit.
\<close>

theorem unset_logsize_is_size_limited:
  "option_value env_unset ''logsize'' = PyBool False
   \<and> emitted (vdsm_setup env_unset) ! 7 = CopySpecLimit ''/var/log/vdsm/*'' (PyBool False)
   \<and> CopySpec ''/var/log/vdsm/*'' \<notin> set (emitted (vdsm_setup env_unset))"
  by (simp add: unset_logsize unset_toggle vdsm_setup_emitted setup_local_emitted
      unset_run_dir_result unset_run_dir_emitted unset_pgrep unset_connect unset_local_result
      setup_vdsm_emitted demo_pools)

subsection \<open>C8: the volume chains of the storage domains\<close>

text \<open>
  C8 says that in every run the storage domains are asked for and one command is run per
  domain exactly when the option \<^verbatim>\<open>dump-volume-chains\<close> is set. The code returns before
  that when \<^verbatim>\<open>client.connect\<close> raises: on the example host that refuses the connection
  the option is set, \<^verbatim>\<open>Host.getStorageDomains\<close> is never called and no
  \<^verbatim>\<open>vdsm-tool dump-volume-chains\<close> command is requested.
\<close>

theorem toggle_set_without_connection:
  "truthy (option_value env_noconn ''dump-volume-chains'')
   \<and> (''Host.getStorageDomains'', [(''domainClass'', PyInt DATA_DOMAIN)])
        \<notin> set (called (vdsm_setup env_noconn))
   \<and> filter is_domain_command (commands (emitted (vdsm_setup env_noconn))) = []"
  by (simp add: vdsm_setup_called vdsm_setup_emitted noconn_local noconn_connect)
     (simp add: env_noconn_def demo_env_def)

text \<open>
  C8, amended. In a run that reaches the option (the part before \<^verbatim>\<open>client.connect\<close>
  returned, the connection was established and the pool discovery returned):
  \<^verbatim>\<open>Host.getStorageDomains(domainClass=1)\<close> is called if and only if the option is true;
  when the option is not true, no \<^verbatim>\<open>vdsm-tool dump-volume-chains\<close> command is requested;
  when it is true and the domain discovery returns \<open>sd_uuids\<close>, the commands requested
  are, in order, \<^verbatim>\<open>"vdsm-tool dump-volume-chains %s" % sd_uuid\<close>, one per element of
  \<open>sd_uuids\<close>.
\<close>

theorem domain_fan_out_follows_toggle:
  assumes "result (setup_local env) = Inr ()"
    and "client_connect env ''localhost'' = Inr cli"
    and "rpc_ids cli ''Host.getConnectedStoragePools'' [] = Inr pools"
  shows "((''Host.getStorageDomains'', [(''domainClass'', PyInt DATA_DOMAIN)])
            \<in> set (called (vdsm_setup env))
          \<longleftrightarrow> truthy (option_value env ''dump-volume-chains''))
    \<and> (\<not> truthy (option_value env ''dump-volume-chains'') \<longrightarrow>
          filter is_domain_command (commands (emitted (vdsm_setup env))) = [])
    \<and> (truthy (option_value env ''dump-volume-chains'')
          \<and> rpc_ids cli ''Host.getStorageDomains'' [(''domainClass'', PyInt DATA_DOMAIN)] = Inr sd_uuids \<longrightarrow>
          filter is_domain_command (commands (emitted (vdsm_setup env)))
            = map (\<lambda>sd_uuid. ''vdsm-tool dump-volume-chains '' @ sd_uuid) sd_uuids)"
proof (intro conjI impI)
  show "((''Host.getStorageDomains'', [(''domainClass'', PyInt DATA_DOMAIN)])
            \<in> set (called (vdsm_setup env))
          \<longleftrightarrow> truthy (option_value env ''dump-volume-chains''))"
    by (auto simp add: vdsm_setup_called setup_vdsm_called assms)
next
  assume "\<not> truthy (option_value env ''dump-volume-chains'')"
  then show "filter is_domain_command (commands (emitted (vdsm_setup env))) = []"
    by (simp add: vdsm_setup_emitted setup_vdsm_emitted assms)
next
  assume "truthy (option_value env ''dump-volume-chains'')
      \<and> rpc_ids cli ''Host.getStorageDomains'' [(''domainClass'', PyInt DATA_DOMAIN)] = Inr sd_uuids"
  then have on: "truthy (option_value env ''dump-volume-chains'')"
    and sds: "rpc_ids cli ''Host.getStorageDomains'' [(''domainClass'', PyInt DATA_DOMAIN)] = Inr sd_uuids"
    by simp_all
  have "filter is_domain_command (map (\<lambda>sd_uuid. ''vdsm-tool dump-volume-chains '' @ sd_uuid) sd_uuids)
      = map (\<lambda>sd_uuid. ''vdsm-tool dump-volume-chains '' @ sd_uuid) sd_uuids"
    by (simp add: filter_map comp_def is_domain_command_def)
  then show "filter is_domain_command (commands (emitted (vdsm_setup env)))
      = map (\<lambda>sd_uuid. ''vdsm-tool dump-volume-chains '' @ sd_uuid) sd_uuids"
    by (simp add: vdsm_setup_emitted setup_vdsm_emitted assms on sds)
qed

text \<open>
  On the example host the option is set and two domains are discovered; with the option
  switched off the domains are not asked for.
\<close>

theorem domain_fan_out_follows_toggle_witness:
  "(''Host.getStorageDomains'', [(''domainClass'', PyInt DATA_DOMAIN)])
      \<in> set (called (vdsm_setup demo_env))
   \<and> truthy (option_value demo_env ''dump-volume-chains'')
   \<and> filter is_domain_command (commands (emitted (vdsm_setup demo_env)))
      = [''vdsm-tool dump-volume-chains sd1'', ''vdsm-tool dump-volume-chains sd2'']
   \<and> (''Host.getStorageDomains'', [(''domainClass'', PyInt DATA_DOMAIN)])
      \<notin> set (called (vdsm_setup env_no_dump))
   \<and> filter is_domain_command (commands (emitted (vdsm_setup env_no_dump))) = []"
proof -
  have on: "truthy (option_value demo_env ''dump-volume-chains'')"
    by (simp add: demo_toggle)
  from domain_fan_out_follows_toggle[OF demo_local_result demo_connect demo_pools, of "[''sd1'', ''sd2'']"]
    on demo_domains
  have set: "(''Host.getStorageDomains'', [(''domainClass'', PyInt DATA_DOMAIN)])
      \<in> set (called (vdsm_setup demo_env))
   \<and> filter is_domain_command (commands (emitted (vdsm_setup demo_env)))
      = [''vdsm-tool dump-volume-chains sd1'', ''vdsm-tool dump-volume-chains sd2'']"
    by simp
  from domain_fan_out_follows_toggle[OF no_dump_local no_dump_connect demo_pools] no_dump_toggle
  have unset: "(''Host.getStorageDomains'', [(''domainClass'', PyInt DATA_DOMAIN)])
      \<notin> set (called (vdsm_setup env_no_dump))
   \<and> filter is_domain_command (commands (emitted (vdsm_setup env_no_dump))) = []"
    by simp
  from on set unset show ?thesis by simp
qed

subsection \<open>C9: the forbidden paths\<close>

text \<open>
  C9. In every run the first three requests are the declarations of the three forbidden
  patterns, so they precede every copy request, also in a run that raises later. And when
  \<^verbatim>\<open>glob.glob("/var/run/vdsm/*")\<close> returns paths that start with \<^verbatim>\<open>/var/run/vdsm/\<close>,
  no path that the run requests for copy matches any of the three patterns.
\<close>

theorem forbidden_paths_declared_first:
  "take 3 (emitted (vdsm_setup env))
     = [ForbiddenPath ''/etc/pki/vdsm/keys/*'',
        ForbiddenPath ''/etc/pki/vdsm/libvirt-spice/*-key.*'',
        ForbiddenPath ''/etc/pki/libvirt/private/*'']
   \<and> ((\<forall>f\<in>set (glob_glob env ''/var/run/vdsm/*''). take 14 f = ''/var/run/vdsm/'') \<longrightarrow>
        (\<forall>p\<in>set (copy_paths (emitted (vdsm_setup env))).
           \<not> glob_match ''/etc/pki/vdsm/keys/*'' p
           \<and> \<not> glob_match ''/etc/pki/vdsm/libvirt-spice/*-key.*'' p
           \<and> \<not> glob_match ''/etc/pki/libvirt/private/*'' p))"
proof (intro conjI impI ballI)
  show "take 3 (emitted (vdsm_setup env))
     = [ForbiddenPath ''/etc/pki/vdsm/keys/*'',
        ForbiddenPath ''/etc/pki/vdsm/libvirt-spice/*-key.*'',
        ForbiddenPath ''/etc/pki/libvirt/private/*'']"
    by (simp add: vdsm_setup_emitted setup_local_emitted)
next
  fix p
  assume files: "\<forall>f\<in>set (glob_glob env ''/var/run/vdsm/*''). take 14 f = ''/var/run/vdsm/''"
    and p: "p \<in> set (copy_paths (emitted (vdsm_setup env)))"
  from p have "p \<in> set (copy_paths (emitted (setup_local env)))"
    by (simp add: vdsm_setup_copy_paths)
  from setup_local_copy_paths[OF files this] forbidden_match_prefix[of p]
  show "\<not> glob_match ''/etc/pki/vdsm/keys/*'' p" 
    and "\<not> glob_match ''/etc/pki/vdsm/libvirt-spice/*-key.*'' p"
    and "\<not> glob_match ''/etc/pki/libvirt/private/*'' p"
    by blast+
qed

text \<open>On the example host, for a file of the run directory and for a requested pattern.\<close>

theorem forbidden_paths_declared_first_witness:
  "take 3 (emitted (vdsm_setup demo_env))
     = [ForbiddenPath ''/etc/pki/vdsm/keys/*'',
        ForbiddenPath ''/etc/pki/vdsm/libvirt-spice/*-key.*'',
        ForbiddenPath ''/etc/pki/libvirt/private/*'']
   \<and> ''/var/run/vdsm/vdsmd.pid'' \<in> set (copy_paths (emitted (vdsm_setup demo_env)))
   \<and> \<not> glob_match ''/etc/pki/vdsm/keys/*'' ''/var/run/vdsm/vdsmd.pid''
   \<and> ''/etc/vdsm/*'' \<in> set (copy_paths (emitted (vdsm_setup demo_env)))
   \<and> \<not> glob_match ''/etc/pki/vdsm/keys/*'' ''/etc/vdsm/*''
   \<and> \<not> glob_match ''/etc/pki/vdsm/libvirt-spice/*-key.*'' ''/etc/vdsm/*''
   \<and> \<not> glob_match ''/etc/pki/libvirt/private/*'' ''/etc/vdsm/*''"
  using forbidden_paths_declared_first[of demo_env] demo_files_under_run_dir demo_copy_paths
  by blast

subsection \<open>C10: the run directory\<close>

text \<open>
  C10 says that every path under \<^verbatim>\<open>/var/run/vdsm\<close> that passes the four tests is
  requested for copy. \<^verbatim>\<open>os.stat\<close> is called inside the loop without a handler: when the
  run directory lists a dangling link before a regular file, \<^verbatim>\<open>os.stat\<close> raises on the
  link and the loop ends there. The regular file, which passes the four tests, is not
  requested, neither by \<^verbatim>\<open>_addVdsmRunDir\<close> nor by the rest of \<^verbatim>\<open>setup\<close>, which
  raises the same exception.
\<close>

theorem run_dir_stops_when_stat_raises:
  "glob_glob env_stat_fail ''/var/run/vdsm/*'' = [''/var/run/vdsm/gone'', ''/var/run/vdsm/vdsmd.pid'']
   \<and> \<not> endswith ''/var/run/vdsm/vdsmd.pid'' ''.vfd''
   \<and> \<not> endswith ''/var/run/vdsm/vdsmd.pid'' ''/isoUploader''
   \<and> \<not> endswith ''/var/run/vdsm/vdsmd.pid'' ''/storage''
   \<and> \<not> is_socket env_stat_fail ''/var/run/vdsm/vdsmd.pid''
   \<and> CopySpec ''/var/run/vdsm/vdsmd.pid'' \<notin> set (emitted (addVdsmRunDir env_stat_fail))
   \<and> result (addVdsmRunDir env_stat_fail) = Inl (Exception ''[Errno 2] No such file or directory'')
   \<and> CopySpec ''/var/run/vdsm/vdsmd.pid'' \<notin> set (emitted (vdsm_setup env_stat_fail))
   \<and> result (vdsm_setup env_stat_fail) = Inl (Exception ''[Errno 2] No such file or directory'')"
proof -
  have run_dir: "glob_glob env_stat_fail ''/var/run/vdsm/*'' = [''/var/run/vdsm/gone'', ''/var/run/vdsm/vdsmd.pid'']
   \<and> \<not> endswith ''/var/run/vdsm/vdsmd.pid'' ''.vfd''
   \<and> \<not> endswith ''/var/run/vdsm/vdsmd.pid'' ''/isoUploader''
   \<and> \<not> endswith ''/var/run/vdsm/vdsmd.pid'' ''/storage''
   \<and> \<not> is_socket env_stat_fail ''/var/run/vdsm/vdsmd.pid''
   \<and> CopySpec ''/var/run/vdsm/vdsmd.pid'' \<notin> set (emitted (addVdsmRunDir env_stat_fail))"
    by (simp add: addVdsmRunDir_def env_stat_fail_def demo_env_def for_each_Cons for_each_Nil
      bind_result bind_emitted endswith_def is_socket_def S_ISSOCK_def S_IFMT_def add_defs)
  have local: "result (setup_local env_stat_fail) = Inl (Exception ''[Errno 2] No such file or directory'')"
    by (simp add: setup_local_result stat_fail_run_dir)
  have none: "emitted (addVdsmRunDir env_stat_fail) = []"
    by (simp add: addVdsmRunDir_def env_stat_fail_def demo_env_def for_each_Cons for_each_Nil
      bind_result bind_emitted endswith_def add_defs)
  have all: "CopySpec ''/var/run/vdsm/vdsmd.pid'' \<notin> set (emitted (vdsm_setup env_stat_fail))
   \<and> result (vdsm_setup env_stat_fail) = Inl (Exception ''[Errno 2] No such file or directory'')"
    by (simp add: vdsm_setup_emitted vdsm_setup_result local setup_local_emitted stat_fail_run_dir
        none)
  from run_dir stat_fail_run_dir all show ?thesis by simp
qed

end
